theory Spec2Isabelle
  imports Complex_Main "HOL-Library.Monad_Syntax"
begin

section \<open>JavaScript strings\<close>

text \<open>
  A JavaScript string is a sequence of UTF-16 code units; \<open>length\<close>, \<open>includes\<close>,
  \<open>split\<close>, \<open>trim\<close> and the regular expressions of the server (none has the \<open>u\<close>
  flag) all work on code units. A string is therefore a list of code units, each
  a natural number below 65536, and \<open>ascii\<close> embeds an ASCII literal.
\<close>

type_synonym jstring = "nat list"

definition ascii :: "string \<Rightarrow> jstring" where
  "ascii s = map of_char s"

text \<open>The two box-drawing characters of the table format: U+2502 and U+2500.\<close>

definition BOX_V :: nat where
  "BOX_V = 9474"

definition BOX_H :: nat where
  "BOX_H = 9472"

fun starts_with :: "jstring \<Rightarrow> jstring \<Rightarrow> bool" where
  "starts_with s [] = True"
| "starts_with [] (p # ps) = False"
| "starts_with (c # cs) (p # ps) = (c = p \<and> starts_with cs ps)"

text \<open>\<open>String.prototype.includes\<close>: the argument occurs at some index.\<close>

fun js_includes :: "jstring \<Rightarrow> jstring \<Rightarrow> bool" where
  "js_includes [] sub = (sub = [])"
| "js_includes (c # cs) sub = (starts_with (c # cs) sub \<or> js_includes cs sub)"

text \<open>
  An array has at most \<open>2^32 - 1\<close> elements. \<open>push\<close> throws a \<open>RangeError\<close> where
  it would make an array longer, and \<open>split\<close> without a limit stops at that many
  fields.
\<close>

definition MAX_ARRAY_LENGTH :: nat where
  "MAX_ARRAY_LENGTH = 4294967295"

text \<open>
  \<open>String.prototype.split\<close> with a separator of one code unit (the server splits on
  a line feed and on U+2502): the fields between the occurrences, one more than there
  are occurrences, so the empty string splits into one empty field; of these the
  first \<open>2^32 - 1\<close>.
\<close>

fun splitFields :: "jstring \<Rightarrow> nat \<Rightarrow> jstring list" where
  "splitFields [] sep = [[]]"
| "splitFields (c # cs) sep =
     (if c = sep then [] # splitFields cs sep
      else (case splitFields cs sep of
              [] \<Rightarrow> [[c]]
            | f # fs \<Rightarrow> (c # f) # fs))"

definition split :: "jstring \<Rightarrow> nat \<Rightarrow> jstring list" where
  "split s sep = take MAX_ARRAY_LENGTH (splitFields s sep)"

text \<open>
  White space and line terminators of ECMAScript: what \<open>trim\<close> removes and what \<open>\s\<close>
  matches.
\<close>

definition isWhiteSpace :: "nat \<Rightarrow> bool" where
  "isWhiteSpace c =
     (c = 9 \<or> c = 10 \<or> c = 11 \<or> c = 12 \<or> c = 13 \<or> c = 32 \<or> c = 160 \<or> c = 5760
      \<or> (8192 \<le> c \<and> c \<le> 8202) \<or> c = 8232 \<or> c = 8233 \<or> c = 8239 \<or> c = 8287
      \<or> c = 12288 \<or> c = 65279)"

definition trim :: "jstring \<Rightarrow> jstring" where
  "trim s = rev (dropWhile isWhiteSpace (rev (dropWhile isWhiteSpace s)))"

text \<open>\<open>\d\<close> is \<open>[0-9]\<close> and \<open>\w\<close> is \<open>[A-Za-z0-9_]\<close>.\<close>

definition isDigit :: "nat \<Rightarrow> bool" where
  "isDigit c = (48 \<le> c \<and> c \<le> 57)"

definition isWordChar :: "nat \<Rightarrow> bool" where
  "isWordChar c = ((48 \<le> c \<and> c \<le> 57) \<or> (65 \<le> c \<and> c \<le> 90) \<or> c = 95 \<or> (97 \<le> c \<and> c \<le> 122))"

text \<open>
  \<open>toLowerCase\<close> on the letters A to Z. The other mappings of Unicode are left out:
  the only code unit outside ASCII that lower-cases to an ASCII letter alone is
  U+212A (to k), and no word that the server compares a lower-cased string with has a k;
  the one other place lower-cases a match of \<open>\w+\<close>, which is ASCII.
\<close>

definition lowerChar :: "nat \<Rightarrow> nat" where
  "lowerChar c = (if 65 \<le> c \<and> c \<le> 90 then c + 32 else c)"

definition toLowerCase :: "jstring \<Rightarrow> jstring" where
  "toLowerCase s = map lowerChar s"

text \<open>
  The numbers the parser reads. A JavaScript number is a double: a natural number
  below \<open>2^53\<close> is itself, exactly (\<open>Exact\<close>). Of a longer string of digits
  \<open>parseInt\<close> gives the nearest double, or one close to it (the digits after the
  twentieth may be read as zeros), or \<open>Infinity\<close>: \<open>Huge\<close> stands for such a number,
  of which the model says no more than that it is beyond \<open>2^53 - 3\<close>, so that
  one more or one less is \<open>Huge\<close> again.
\<close>

datatype jsnum = Exact nat | Huge

definition decimalValue :: "jstring \<Rightarrow> nat" where
  "decimalValue ds = foldl (\<lambda>n d. 10 * n + (d - 48)) 0 ds"

definition parseInt :: "jstring \<Rightarrow> jsnum" where
  "parseInt ds =
     (if decimalValue ds < 9007199254740992 then Exact (decimalValue ds) else Huge)"

text \<open>
  A natural number in decimal, as a template literal prints it (below \<open>10^21\<close>; above,
  JavaScript prints an exponent).
\<close>

fun dec :: "nat \<Rightarrow> jstring" where
  "dec n = (if n < 10 then [48 + n] else dec (n div 10) @ [48 + n mod 10])"

declare dec.simps [simp del]

section \<open>Issue records\<close>

datatype severity = Error | Warn | Info | Hint

fun severity_name :: "severity \<Rightarrow> jstring" where
  "severity_name Error = ascii ''error''"
| "severity_name Warn = ascii ''warn''"
| "severity_name Info = ascii ''info''"
| "severity_name Hint = ascii ''hint''"

record PostmanIssue =
  severity :: severity
  line :: jsnum
  column :: jsnum
  message :: jstring
  rule :: jstring
  path :: jstring

record IssueSummary =
  total :: nat
  error :: nat
  warn :: nat
  info :: nat
  hint :: nat

section \<open>Errors\<close>

text \<open>
  An error object: its \<open>name\<close>, its \<open>message\<close> and the \<open>stdout\<close> property that
  \<open>scoreSpecFile\<close> looks for (absent on the errors of \<open>spawn\<close> and of \<open>new Error\<close>).
  \<open>errorToString\<close> is \<open>Error.prototype.toString\<close>, which a template literal applies.
\<close>

record JsError =
  err_name :: jstring
  err_message :: jstring
  err_stdout :: "jstring option"

definition newError :: "jstring \<Rightarrow> JsError" where
  "newError msg = \<lparr>err_name = ascii ''Error'', err_message = msg, err_stdout = None\<rparr>"

definition errorToString :: "JsError \<Rightarrow> jstring" where
  "errorToString e =
     (if err_name e = [] then err_message e
      else if err_message e = [] then err_name e
      else err_name e @ ascii '': '' @ err_message e)"

text \<open>The error of a \<open>push\<close> onto a full array.\<close>

definition rangeError :: JsError where
  "rangeError =
     \<lparr>err_name = ascii ''RangeError'', err_message = ascii ''Invalid array length'',
      err_stdout = None\<rparr>"

section \<open>GovernanceScorer: severity, summary and score\<close>

text \<open>
  \<open>normalizeSeverity\<close>: a falsy argument gives hint; otherwise the argument is
  lower-cased, trimmed and looked up, and anything unknown is hint.
\<close>

definition normalizeSeverity :: "jstring \<Rightarrow> severity" where
  "normalizeSeverity sev =
     (if sev = [] then Hint
      else (let cleaned = trim (toLowerCase sev) in
        if cleaned = ascii ''error'' \<or> cleaned = ascii ''errors'' then Error
        else if cleaned = ascii ''warn'' \<or> cleaned = ascii ''warning''
                \<or> cleaned = ascii ''warnings'' then Warn
        else if cleaned = ascii ''info'' \<or> cleaned = ascii ''information'' then Info
        else Hint))"

text \<open>
  \<open>summarizeIssues\<close>: \<open>total\<close> is the length of the array, and the loop adds one to
  the bucket of the normalized severity of each issue.
\<close>

definition countIssue :: "IssueSummary \<Rightarrow> PostmanIssue \<Rightarrow> IssueSummary" where
  "countIssue summary issue =
     (let normalizedSeverity = normalizeSeverity (severity_name (severity issue)) in
      if normalizedSeverity = Error then summary\<lparr>error := error summary + 1\<rparr>
      else if normalizedSeverity = Warn then summary\<lparr>warn := warn summary + 1\<rparr>
      else if normalizedSeverity = Info then summary\<lparr>info := info summary + 1\<rparr>
      else summary\<lparr>hint := hint summary + 1\<rparr>)"

definition summarizeIssues :: "PostmanIssue list \<Rightarrow> IssueSummary" where
  "summarizeIssues issues =
     foldl countIssue \<lparr>total = length issues, error = 0, warn = 0, info = 0, hint = 0\<rparr> issues"

text \<open>
  \<open>computeScore\<close>. A JavaScript number is a double, so every arithmetic operation
  of the source rounds its exact result to a double. The model takes that rounding as
  the parameter \<open>rnd\<close>, applied after each subtraction, the multiplication and the
  division, and to the literal 0.05 (10, 2.5 and 0.5 are doubles);
  \<open>Math.round\<close> is exact (the integer \<open>\<lfloor>x + 1/2\<rfloor>\<close>) and \<open>Math.max\<close> is exact.
  With \<open>rnd\<close> the identity the model computes in exact arithmetic.
\<close>

definition deduct :: "(real \<Rightarrow> real) \<Rightarrow> real \<Rightarrow> PostmanIssue \<Rightarrow> real" where
  "deduct rnd score issue =
     (case normalizeSeverity (severity_name (severity issue)) of
        Error \<Rightarrow> rnd (score - 10)
      | Warn \<Rightarrow> rnd (score - 5 / 2)
      | Info \<Rightarrow> rnd (score - 1 / 2)
      | Hint \<Rightarrow> rnd (score - rnd (5 / 100)))"

definition mathRound :: "real \<Rightarrow> real" where
  "mathRound x = of_int \<lfloor>x + 1 / 2\<rfloor>"

definition finishScore :: "(real \<Rightarrow> real) \<Rightarrow> real \<Rightarrow> real" where
  "finishScore rnd score = max 0 (rnd (mathRound (rnd (score * 100)) / 100))"

definition computeScore :: "(real \<Rightarrow> real) \<Rightarrow> PostmanIssue list \<Rightarrow> real" where
  "computeScore rnd issues = finishScore rnd (foldl (deduct rnd) 100 issues)"

section \<open>GovernanceScorer: the output parser\<close>

text \<open>
  \<open>stdout.replace(/\x1b\[[0-9;]*m/g, '')\<close>. At an escape character followed by an
  opening bracket the star takes every digit and semicolon; the match succeeds when an
  \<open>m\<close> follows (giving characters back cannot help, none of them is an \<open>m\<close>), is
  removed, and the scan goes on after it. Everywhere else the character is kept.
\<close>

definition isSgrChar :: "nat \<Rightarrow> bool" where
  "isSgrChar c = (isDigit c \<or> c = 59)"

function stripAnsi :: "jstring \<Rightarrow> jstring" where
  "stripAnsi [] = []"
| "stripAnsi (c # cs) =
     (if c = 27 \<and> starts_with cs [91] \<and> starts_with (dropWhile isSgrChar (tl cs)) [109]
      then stripAnsi (tl (dropWhile isSgrChar (tl cs)))
      else c # stripAnsi cs)"
  by pat_completeness auto
termination
proof (relation "measure length")
  show "wf (measure length)" by simp
next
  fix c :: nat and cs :: jstring
  have "length (tl (dropWhile isSgrChar (tl cs))) \<le> length cs"
    using length_dropWhile_le [of isSgrChar "tl cs"] by simp
  then show "(tl (dropWhile isSgrChar (tl cs)), c # cs) \<in> measure length"
    by simp
next
  fix c :: nat and cs :: jstring
  show "(cs, c # cs) \<in> measure length" by simp
qed

text \<open>
  \<open>line.match(/Validation Type:\s*(\w+)/i)\<close>: the leftmost index where the literal
  matches without regard to the case of ASCII letters (with the \<open>i\<close> flag and no
  \<open>u\<close> flag a character outside ASCII never equals an ASCII one), then all white space,
  then a longest, non-empty run of word characters, which is group 1. White space and
  word characters are disjoint, so the greedy choice is the only one that can match.
\<close>

definition starts_with_ci :: "jstring \<Rightarrow> jstring \<Rightarrow> bool" where
  "starts_with_ci s lit = starts_with (toLowerCase (take (length lit) s)) (toLowerCase lit)"

definition typeMatchAt :: "jstring \<Rightarrow> jstring option" where
  "typeMatchAt s =
     (if starts_with_ci s (ascii ''Validation Type:'')
      then (let w = takeWhile isWordChar (dropWhile isWhiteSpace (drop 16 s)) in
            if w = [] then None else Some w)
      else None)"

fun typeMatch :: "jstring \<Rightarrow> jstring option" where
  "typeMatch [] = typeMatchAt []"
| "typeMatch (c # cs) =
     (case typeMatchAt (c # cs) of
        Some w \<Rightarrow> Some w
      | None \<Rightarrow> typeMatch cs)"

text \<open>
  \<open>range.match(/^(\d+):(\d+)$/)\<close>: the whole cell is digits, a colon, digits.
\<close>

definition rangeMatch :: "jstring \<Rightarrow> (jstring \<times> jstring) option" where
  "rangeMatch rng =
     (let l = takeWhile isDigit rng; rest = dropWhile isDigit rng in
      if l \<noteq> [] \<and> starts_with rest [58] \<and> tl rest \<noteq> [] \<and> list_all isDigit (tl rest)
      then Some (l, tl rest) else None)"

text \<open>One row: split on the bar, trim every cell, drop the empty cells.\<close>

definition rowCells :: "jstring \<Rightarrow> jstring list" where
  "rowCells lne = filter (\<lambda>s. s \<noteq> []) (map trim (split lne BOX_V))"

definition isHeaderOrSeparator :: "jstring list \<Rightarrow> bool" where
  "isHeaderOrSeparator row =
     list_ex (\<lambda>cell. js_includes cell (ascii ''Range'') \<or> js_includes cell (ascii ''Severity'')
                     \<or> js_includes cell [BOX_H]) row"

fun rowIssue :: "jstring \<Rightarrow> jstring list \<Rightarrow> PostmanIssue option" where
  "rowIssue currentValidationType (rng # sev # description # rest) =
     Some \<lparr>severity = normalizeSeverity sev,
           line = (case rangeMatch rng of None \<Rightarrow> Exact 0 | Some (l, c) \<Rightarrow> parseInt l),
           column = (case rangeMatch rng of None \<Rightarrow> Exact 0 | Some (l, c) \<Rightarrow> parseInt c),
           message = description,
           rule = currentValidationType @ ascii ''-rule'',
           path = (case rest of [] \<Rightarrow> [] | pathStr # _ \<Rightarrow> pathStr)\<rparr>"
| "rowIssue currentValidationType _ = None"

text \<open>
  The body of the loop over the lines; the state is the array of issues and the
  current validation type. A line adds at most one issue and there are at most
  \<open>2^32 - 1\<close> lines, so the \<open>push\<close> of this loop never meets a full array.
\<close>

definition parseLine :: "PostmanIssue list \<times> jstring \<Rightarrow> jstring \<Rightarrow> PostmanIssue list \<times> jstring" where
  "parseLine st lne =
     (case st of (issues, currentValidationType) \<Rightarrow>
        if js_includes lne (ascii ''Validation Type:'')
        then (case typeMatch lne of
                Some w \<Rightarrow> (issues, toLowerCase w)
              | None \<Rightarrow> (issues, currentValidationType))
        else if \<not> js_includes lne [BOX_V] then (issues, currentValidationType)
        else if isHeaderOrSeparator (rowCells lne) then (issues, currentValidationType)
        else (case rowIssue currentValidationType (rowCells lne) of
                Some issue \<Rightarrow> (issues @ [issue], currentValidationType)
              | None \<Rightarrow> (issues, currentValidationType)))"

definition tableIssues :: "jstring \<Rightarrow> PostmanIssue list" where
  "tableIssues clean = fst (foldl parseLine ([], ascii ''governance'') (split clean 10))"

text \<open>
  The summary sentence,
  \<open>/.*?(\d+)\s+problems?\s*\((\d+)\s+errors?,\s*(\d+)\s+warnings?,\s*(\d+)\s+infos?,\s*(\d+)\s+hints?\)/\<close>.
  \<open>summaryCore\<close> matches the part after \<open>.*?\<close> at the start of its argument. Each
  greedy quantifier is followed by something its own characters cannot match
  (digits by white space, white space by a letter, a bracket or a digit, the optional
  \<open>s\<close> by white space, a bracket or a comma), so giving characters back never
  helps and one pass decides the match.
\<close>

definition digits1 :: "jstring \<Rightarrow> (jstring \<times> jstring) option" where
  "digits1 s = (if takeWhile isDigit s = [] then None
                else Some (takeWhile isDigit s, dropWhile isDigit s))"

definition spaces1 :: "jstring \<Rightarrow> jstring option" where
  "spaces1 s = (if takeWhile isWhiteSpace s = [] then None else Some (dropWhile isWhiteSpace s))"

definition spaces0 :: "jstring \<Rightarrow> jstring option" where
  "spaces0 s = Some (dropWhile isWhiteSpace s)"

definition lit :: "string \<Rightarrow> jstring \<Rightarrow> jstring option" where
  "lit l s = (if starts_with s (ascii l) then Some (drop (length l) s) else None)"

definition optional_s :: "jstring \<Rightarrow> jstring option" where
  "optional_s s = Some (if starts_with s [115] then tl s else s)"

definition summaryCore :: "jstring \<Rightarrow> (jstring \<times> jstring \<times> jstring \<times> jstring \<times> jstring) option" where
  "summaryCore s0 = do {
     (problems, s) \<leftarrow> digits1 s0;
     s \<leftarrow> spaces1 s; s \<leftarrow> lit ''problem'' s; s \<leftarrow> optional_s s;
     s \<leftarrow> spaces0 s; s \<leftarrow> lit ''('' s;
     (errors, s) \<leftarrow> digits1 s;
     s \<leftarrow> spaces1 s; s \<leftarrow> lit ''error'' s; s \<leftarrow> optional_s s; s \<leftarrow> lit '','' s;
     s \<leftarrow> spaces0 s;
     (warnings, s) \<leftarrow> digits1 s;
     s \<leftarrow> spaces1 s; s \<leftarrow> lit ''warning'' s; s \<leftarrow> optional_s s; s \<leftarrow> lit '','' s;
     s \<leftarrow> spaces0 s;
     (infos, s) \<leftarrow> digits1 s;
     s \<leftarrow> spaces1 s; s \<leftarrow> lit ''info'' s; s \<leftarrow> optional_s s; s \<leftarrow> lit '','' s;
     s \<leftarrow> spaces0 s;
     (hints, s) \<leftarrow> digits1 s;
     s \<leftarrow> spaces1 s; s \<leftarrow> lit ''hint'' s; s \<leftarrow> optional_s s; s \<leftarrow> lit '')'' s;
     Some (problems, errors, warnings, infos, hints)
   }"

text \<open>
  \<open>clean.match(summaryRegex)\<close>. The lazy \<open>.*?\<close> lets a match that starts at one index
  try the rest of the pattern at every later index of the same line, in rising
  order, and the search tries the start indices in rising order; the rest of the
  pattern is tried at an index of its own line first, so the match found is the one
  at the least index where \<open>summaryCore\<close> succeeds.
\<close>

fun summaryMatch :: "jstring \<Rightarrow> (jstring \<times> jstring \<times> jstring \<times> jstring \<times> jstring) option" where
  "summaryMatch [] = summaryCore []"
| "summaryMatch (c # cs) =
     (case summaryCore (c # cs) of
        Some groups \<Rightarrow> Some groups
      | None \<Rightarrow> summaryMatch cs)"

definition genericIssue :: "string \<Rightarrow> string \<Rightarrow> PostmanIssue" where
  "genericIssue sev msg =
     \<lparr>severity = normalizeSeverity (ascii sev), line = Exact 0, column = Exact 0,
      message = ascii msg,
      rule = ascii ''governance-rule'', path = []\<rparr>"

text \<open>
  One loop of the fallback, \<open>for (let i = 0; i < count; i++) issues.push(issue)\<close>:
  \<open>count\<close> issues more, or the \<open>RangeError\<close> of the \<open>push\<close> that finds the array
  full, which a \<open>Huge\<close> count always reaches. The memory such an array takes is
  not modelled.
\<close>

fun pushTimes :: "jsnum \<Rightarrow> PostmanIssue \<Rightarrow> PostmanIssue list \<Rightarrow> JsError + PostmanIssue list" where
  "pushTimes (Exact n) issue issues =
     (if length issues + n \<le> MAX_ARRAY_LENGTH then Inr (issues @ replicate n issue)
      else Inl rangeError)"
| "pushTimes Huge issue issues = Inl rangeError"

definition fallbackIssues :: "jstring \<Rightarrow> JsError + PostmanIssue list" where
  "fallbackIssues clean =
     (case summaryMatch clean of
        None \<Rightarrow> Inr []
      | Some (problems, errors, warnings, infos, hints) \<Rightarrow>
          (case pushTimes (parseInt errors) (genericIssue ''error'' ''Governance error'') [] of
             Inl e \<Rightarrow> Inl e
           | Inr issues1 \<Rightarrow>
          (case pushTimes (parseInt warnings) (genericIssue ''warning'' ''Governance warning'')
                  issues1 of
             Inl e \<Rightarrow> Inl e
           | Inr issues2 \<Rightarrow>
          (case pushTimes (parseInt infos) (genericIssue ''info'' ''Governance info'') issues2 of
             Inl e \<Rightarrow> Inl e
           | Inr issues3 \<Rightarrow>
               pushTimes (parseInt hints) (genericIssue ''hint'' ''Governance hint'') issues3))))"

text \<open>
  The parser returns the issues and their summary, or throws what the fallback throws.
\<close>

definition parseStdoutToIssuesAndSummary ::
  "jstring \<Rightarrow> JsError + (PostmanIssue list \<times> IssueSummary)" where
  "parseStdoutToIssuesAndSummary stdout =
     (let clean = stripAnsi stdout in
      if tableIssues clean = []
      then (case fallbackIssues clean of
              Inl e \<Rightarrow> Inl e
            | Inr issues \<Rightarrow> Inr (issues, summarizeIssues issues))
      else Inr (tableIssues clean, summarizeIssues (tableIssues clean)))"

section \<open>GovernanceScorer: running the tool\<close>

text \<open>\<open>Array.prototype.join\<close>.\<close>

fun join :: "jstring list \<Rightarrow> jstring \<Rightarrow> jstring" where
  "join [] sep = []"
| "join [a] sep = a"
| "join (a # b # r) sep = a @ sep @ join (b # r) sep"

text \<open>
  The call of \<open>spawn\<close>: the program, its arguments and the environment given in the
  options. The argument vector of the child is the program followed by the arguments.
\<close>

record SpawnCall =
  spawn_command :: jstring
  spawn_args :: "jstring list"
  spawn_env :: "jstring \<rightharpoonup> jstring"

definition argv :: "SpawnCall \<Rightarrow> jstring list" where
  "argv c = spawn_command c # spawn_args c"

text \<open>
  How the child ends, as \<open>executeWithTempFile\<close> sees it. The promise settles once, at
  the first of: the \<open>error\<close> event, the timer of 600000 ms, the \<open>close\<close> event. After
  \<open>close\<close> the output file is read, which gives its text or fails.
\<close>

datatype ChildOutcome =
    SpawnFailed JsError
  | TimedOut
  | Closed "int option" "JsError + jstring"

record ExecResult =
  res_stdout :: jstring
  res_stderr :: jstring
  res_code :: "int option"

text \<open>
  What a run depends on outside the program: the environment of the server process,
  the two temporary file names (made from the temporary directory and the clock), the
  clock as an ISO string, whether writing and deleting the document's temporary file
  fail, and how the child ends.
\<close>

record World =
  process_env :: "jstring \<rightharpoonup> jstring"
  lint_file :: jstring
  output_file :: jstring
  timestamp_now :: jstring
  write_failure :: "JsError option"
  unlink_failure :: "JsError option"
  child :: ChildOutcome

definition DQUOTE :: nat where
  "DQUOTE = 34"

definition fullCommand :: "jstring \<Rightarrow> jstring \<Rightarrow> jstring list \<Rightarrow> jstring \<Rightarrow> jstring" where
  "fullCommand tempFile command args apiKey =
     ascii ''POSTMAN_API_KEY='' @ [DQUOTE] @ apiKey @ [DQUOTE] @ ascii '' '' @ command
     @ ascii '' '' @ join args (ascii '' '') @ ascii '' > '' @ [DQUOTE] @ tempFile @ [DQUOTE]
     @ ascii '' 2>&1''"

definition executeWithTempFile_spawn :: "World \<Rightarrow> jstring \<Rightarrow> jstring list \<Rightarrow> jstring \<Rightarrow> SpawnCall" where
  "executeWithTempFile_spawn w command args apiKey =
     \<lparr>spawn_command = ascii ''sh'',
      spawn_args = [ascii ''-c'', fullCommand (output_file w) command args apiKey],
      spawn_env = (process_env w)(ascii ''POSTMAN_API_KEY'' \<mapsto> apiKey)\<rparr>"

definition executeWithTempFile :: "World \<Rightarrow> jstring \<Rightarrow> jstring list \<Rightarrow> jstring \<Rightarrow> JsError + ExecResult" where
  "executeWithTempFile w command args apiKey =
     (case child w of
        SpawnFailed e \<Rightarrow> Inl e
      | TimedOut \<Rightarrow> Inl (newError (ascii ''Command timeout after 10 minutes''))
      | Closed code (Inl readError) \<Rightarrow>
          Inl (newError (ascii ''Failed to read output file: '' @ errorToString readError))
      | Closed code (Inr out) \<Rightarrow> Inr \<lparr>res_stdout = out, res_stderr = [], res_code = code\<rparr>)"

text \<open>\<open>path.basename\<close> (POSIX): the part after the last slash, trailing slashes apart.\<close>

definition basename :: "jstring \<Rightarrow> jstring" where
  "basename p = rev (takeWhile (\<lambda>c. c \<noteq> 47) (dropWhile (\<lambda>c. c = 47) (rev p)))"

record ScoreResult =
  sr_score :: real
  sr_violations :: "PostmanIssue list"
  sr_violationCount :: nat
  sr_issues :: "PostmanIssue list"
  sr_summary :: IssueSummary
  sr_api :: jstring
  sr_timestamp :: jstring
  sr_error :: "jstring option"

record GovernanceScorer =
  apiKey :: jstring
  mode :: jstring
  teamDomain :: jstring
  workspaceId :: jstring

text \<open>
  \<open>scoreSpecFile\<close>. The inner \<open>catch\<close> turns a rejection into text:
  \<open>error.stdout || error.message || ''\<close>. The outer \<open>catch\<close> turns what the parser
  throws into the result of a failure, with the message of the error.
  \<open>scoreSpecFile_spawn\<close> is the call of \<open>spawn\<close> the run makes.
\<close>

definition caughtOutput :: "JsError \<Rightarrow> jstring" where
  "caughtOutput e =
     (case err_stdout e of
        Some out \<Rightarrow> (if out \<noteq> [] then out else err_message e)
      | None \<Rightarrow> err_message e)"

definition scoreSpecFile_spawn :: "World \<Rightarrow> GovernanceScorer \<Rightarrow> jstring \<Rightarrow> SpawnCall" where
  "scoreSpecFile_spawn w this specPath =
     executeWithTempFile_spawn w (ascii ''postman'') [ascii ''api'', ascii ''lint'', specPath]
       (apiKey this)"

definition failedScore :: "World \<Rightarrow> jstring \<Rightarrow> jstring \<Rightarrow> ScoreResult" where
  "failedScore w specPath msg =
     \<lparr>sr_score = 0, sr_violations = [], sr_violationCount = 0, sr_issues = [],
      sr_summary = \<lparr>total = 0, error = 0, warn = 0, info = 0, hint = 0\<rparr>,
      sr_api = basename specPath, sr_timestamp = timestamp_now w, sr_error = Some msg\<rparr>"

definition scoreSpecFile :: "(real \<Rightarrow> real) \<Rightarrow> World \<Rightarrow> GovernanceScorer \<Rightarrow> jstring \<Rightarrow> ScoreResult" where
  "scoreSpecFile rnd w this specPath =
     (let stdout =
            (case executeWithTempFile w (ascii ''postman'')
                    [ascii ''api'', ascii ''lint'', specPath] (apiKey this) of
               Inr result \<Rightarrow> res_stdout result
             | Inl e \<Rightarrow> caughtOutput e)
      in if js_includes stdout (ascii ''Error:'')
            \<and> js_includes stdout (ascii ''Couldn't parse'')
         then failedScore w specPath (ascii ''Failed to parse API specification'')
         else (case parseStdoutToIssuesAndSummary stdout of
                 Inr (issues, summary) \<Rightarrow>
                   \<lparr>sr_score = computeScore rnd issues, sr_violations = issues,
                    sr_violationCount = length issues, sr_issues = issues,
                    sr_summary = summary, sr_api = basename specPath,
                    sr_timestamp = timestamp_now w, sr_error = None\<rparr>
               | Inl e \<Rightarrow> failedScore w specPath (err_message e)))"

section \<open>Shared types: settings and diagnostics\<close>

record PostmanLintServerSettings =
  enable :: bool
  postmanCliPath :: jstring
  lintOnSave :: bool
  lintOnChange :: bool
  lintOnChangeDelay :: nat
  maxFileSize :: nat

definition DEFAULT_SETTINGS :: PostmanLintServerSettings where
  "DEFAULT_SETTINGS =
     \<lparr>enable = True, postmanCliPath = ascii ''postman'', lintOnSave = True,
      lintOnChange = False, lintOnChangeDelay = 500, maxFileSize = 1048576\<rparr>"

record Position =
  pos_line :: jsnum
  pos_character :: jsnum

record Range =
  range_start :: Position
  range_end :: Position

record Diagnostic =
  diag_range :: Range
  diag_severity :: nat
  diag_message :: jstring
  diag_source :: jstring
  diag_code :: "jstring option"

fun toVSCodeSeverity :: "severity \<Rightarrow> nat" where
  "toVSCodeSeverity Error = 1"
| "toVSCodeSeverity Warn = 2"
| "toVSCodeSeverity Info = 3"
| "toVSCodeSeverity Hint = 4"

text \<open>\<open>Math.max(0, n - 1)\<close> and \<open>n + 1\<close> on the numbers of the parser.\<close>

fun oneLess :: "jsnum \<Rightarrow> jsnum" where
  "oneLess (Exact n) = Exact (n - 1)"
| "oneLess Huge = Huge"

fun oneMore :: "jsnum \<Rightarrow> jsnum" where
  "oneMore (Exact n) = Exact (n + 1)"
| "oneMore Huge = Huge"

definition createRange :: "jsnum \<Rightarrow> jsnum \<Rightarrow> Range" where
  "createRange l c =
     (let adjustedLine = oneLess l;
          adjustedColumn = oneLess c
      in \<lparr>range_start = \<lparr>pos_line = adjustedLine, pos_character = adjustedColumn\<rparr>,
          range_end = \<lparr>pos_line = adjustedLine, pos_character = oneMore adjustedColumn\<rparr>\<rparr>)"

definition toDiagnostic :: "PostmanIssue \<Rightarrow> Diagnostic" where
  "toDiagnostic issue =
     \<lparr>diag_range = createRange (line issue) (column issue),
      diag_severity = toVSCodeSeverity (severity issue),
      diag_message = message issue,
      diag_source = ascii ''postman-governance'',
      diag_code = Some (rule issue)\<rparr>"

section \<open>The language server: validating a document\<close>

record TextDocument =
  doc_uri :: jstring
  doc_text :: jstring

record LintResult =
  lr_success :: bool
  lr_issues :: "PostmanIssue list"
  lr_summary :: IssueSummary
  lr_error :: "jstring option"
  lr_timestamp :: jstring

text \<open>
  What a handler does to the outside, in order: a publication of diagnostics for a
  document, a line on the console, a write or a deletion of the document's temporary
  file, a call of \<open>spawn\<close>.
\<close>

datatype Effect =
    SendDiagnostics jstring "Diagnostic list"
  | ConsoleWarn jstring
  | ConsoleError jstring
  | WriteFile jstring jstring
  | UnlinkFile jstring
  | Spawn SpawnCall

text \<open>
  \<open>lintDocumentContent\<close>: write the content, score the file, and delete the file on
  every way out (\<open>finally\<close>); a failure of the deletion is only logged. The result is
  the effects and either the error thrown or the lint result.
\<close>

definition cleanupTempFile :: "World \<Rightarrow> Effect list" where
  "cleanupTempFile w =
     UnlinkFile (lint_file w)
     # (case unlink_failure w of
          None \<Rightarrow> []
        | Some cleanupError \<Rightarrow>
            [ConsoleWarn (ascii ''Failed to cleanup temp file: '' @ errorToString cleanupError)])"

definition lintDocumentContent ::
  "(real \<Rightarrow> real) \<Rightarrow> World \<Rightarrow> GovernanceScorer option \<Rightarrow> jstring \<Rightarrow> Effect list \<times> (JsError + LintResult)" where
  "lintDocumentContent rnd w governanceScorer content =
     (case governanceScorer of
        None \<Rightarrow> ([], Inl (newError (ascii ''Governance scorer not initialized'')))
      | Some scorer \<Rightarrow>
          (case write_failure w of
             Some e \<Rightarrow> (WriteFile (lint_file w) content # cleanupTempFile w, Inl e)
           | None \<Rightarrow>
               (let result = scoreSpecFile rnd w scorer (lint_file w) in
                (WriteFile (lint_file w) content
                   # Spawn (scoreSpecFile_spawn w scorer (lint_file w))
                   # cleanupTempFile w,
                 Inr \<lparr>lr_success = True, lr_issues = sr_issues result,
                      lr_summary = sr_summary result, lr_error = None,
                      lr_timestamp = timestamp_now w\<rparr>))))"

definition ends_with :: "jstring \<Rightarrow> jstring \<Rightarrow> bool" where
  "ends_with s suffix = starts_with (rev s) (rev suffix)"

definition isSupportedFile :: "jstring \<Rightarrow> bool" where
  "isSupportedFile uri =
     list_ex (\<lambda>ext. ends_with (toLowerCase uri) ext)
       [ascii ''.yaml'', ascii ''.yml'', ascii ''.json'']"

definition isOpenAPIContent :: "jstring \<Rightarrow> bool" where
  "isOpenAPIContent content =
     (js_includes content (ascii ''openapi:'')
      \<or> js_includes content ([DQUOTE] @ ascii ''openapi'' @ [DQUOTE])
      \<or> js_includes content (ascii ''swagger:'')
      \<or> js_includes content ([DQUOTE] @ ascii ''swagger'' @ [DQUOTE]))"

definition errorDiagnostic :: "JsError \<Rightarrow> Diagnostic" where
  "errorDiagnostic e =
     \<lparr>diag_range = \<lparr>range_start = \<lparr>pos_line = Exact 0, pos_character = Exact 0\<rparr>,
                    range_end = \<lparr>pos_line = Exact 0, pos_character = Exact 1\<rparr>\<rparr>,
      diag_severity = 1,
      diag_message = ascii ''Postman linting failed: '' @ errorToString e,
      diag_source = ascii ''postman-governance'',
      diag_code = None\<rparr>"

definition validateTextDocument ::
  "(real \<Rightarrow> real) \<Rightarrow> World \<Rightarrow> PostmanLintServerSettings \<Rightarrow> GovernanceScorer option
   \<Rightarrow> TextDocument \<Rightarrow> Effect list" where
  "validateTextDocument rnd w settings governanceScorer textDocument =
     (if \<not> enable settings \<or> governanceScorer = None then []
      else (let content = doc_text textDocument in
        if length content > maxFileSize settings
        then [ConsoleWarn (ascii ''File '' @ doc_uri textDocument
                @ ascii '' exceeds maximum size limit ('' @ dec (maxFileSize settings)
                @ ascii '' bytes)'')]
        else if \<not> isSupportedFile (doc_uri textDocument) then []
        else if \<not> isOpenAPIContent content then [SendDiagnostics (doc_uri textDocument) []]
        else (case lintDocumentContent rnd w governanceScorer content of
                (effects, Inr result) \<Rightarrow>
                  effects @ [SendDiagnostics (doc_uri textDocument)
                               (map toDiagnostic (lr_issues result))]
              | (effects, Inl e) \<Rightarrow>
                  effects @ [ConsoleError (ascii ''Error validating '' @ doc_uri textDocument
                               @ ascii '': '' @ errorToString e),
                             SendDiagnostics (doc_uri textDocument) [errorDiagnostic e]])))"

text \<open>
  The diagnostics the host shows: a publication replaces the set of its document.
\<close>

fun publish :: "(jstring \<rightharpoonup> Diagnostic list) \<Rightarrow> Effect \<Rightarrow> (jstring \<rightharpoonup> Diagnostic list)" where
  "publish shown (SendDiagnostics uri diagnostics) = shown(uri \<mapsto> diagnostics)"
| "publish shown _ = shown"

definition publications :: "Effect list \<Rightarrow> (jstring \<times> Diagnostic list) list" where
  "publications effects =
     concat (map (\<lambda>e. case e of SendDiagnostics uri ds \<Rightarrow> [(uri, ds)] | _ \<Rightarrow> []) effects)"

definition spawns :: "Effect list \<Rightarrow> SpawnCall list" where
  "spawns effects = concat (map (\<lambda>e. case e of Spawn c \<Rightarrow> [c] | _ \<Rightarrow> []) effects)"

section \<open>The language server: events and timers\<close>

text \<open>
  A pending timer of \<open>setTimeout\<close>: the time it is due and the document its callback
  validates. The handlers of the server never call \<open>clearTimeout\<close> on it.
\<close>

record Timer =
  due :: nat
  timer_doc :: jstring

text \<open>
  The state of the server between events: the settings, the open documents, the clock
  in milliseconds, the pending timers, and two logs: the documents
  \<open>validateTextDocument\<close> was called on, in order, and the documents whose
  diagnostics were cleared at their closing.
\<close>

text \<open>
  The open documents are kept by their URI, in the order of their opening: a change
  puts the new content in the place of the old.
\<close>

record ServerState =
  settings :: PostmanLintServerSettings
  hasConfigurationCapability :: bool
  documents :: "TextDocument list"
  clock :: nat
  timers :: "Timer list"
  validated :: "jstring list"
  cleared :: "jstring list"

datatype Event =
    DidChangeContent TextDocument
  | DidSave TextDocument
  | DidClose TextDocument
  | DidChangeConfiguration PostmanLintServerSettings
  | TimePasses nat
  | TimerFires nat

definition syncDocument :: "TextDocument \<Rightarrow> TextDocument list \<Rightarrow> TextDocument list" where
  "syncDocument d ds =
     (if list_ex (\<lambda>x. doc_uri x = doc_uri d) ds
      then map (\<lambda>x. if doc_uri x = doc_uri d then d else x) ds
      else ds @ [d])"

text \<open>
  One event. \<open>onDidChangeDocument\<close> arms a timer when \<open>lintOnChange\<close> is set;
  \<open>onDidSaveDocument\<close> validates when \<open>lintOnSave\<close> is set; \<open>onDidCloseDocument\<close>
  publishes an empty set; \<open>onDidChangeConfiguration\<close> replaces the settings (by the
  defaults overlaid with the new values, given here as they come out, or by the
  defaults alone) and validates every open document. A timer fires once it is due, which
  removes it and calls its callback.
\<close>

fun step :: "ServerState \<Rightarrow> Event \<Rightarrow> ServerState" where
  "step s (DidChangeContent d) =
     (if lintOnChange (settings s)
      then s\<lparr>documents := syncDocument d (documents s),
             timers := timers s @ [\<lparr>due = clock s + lintOnChangeDelay (settings s),
                                     timer_doc = doc_uri d\<rparr>]\<rparr>
      else s\<lparr>documents := syncDocument d (documents s)\<rparr>)"
| "step s (DidSave d) =
     (if lintOnSave (settings s) then s\<lparr>validated := validated s @ [doc_uri d]\<rparr> else s)"
| "step s (DidClose d) =
     s\<lparr>documents := filter (\<lambda>x. doc_uri x \<noteq> doc_uri d) (documents s),
       cleared := cleared s @ [doc_uri d]\<rparr>"
| "step s (DidChangeConfiguration newSettings) =
     s\<lparr>settings := (if hasConfigurationCapability s then newSettings else DEFAULT_SETTINGS),
       validated := validated s @ map doc_uri (documents s)\<rparr>"
| "step s (TimePasses t) = s\<lparr>clock := clock s + t\<rparr>"
| "step s (TimerFires k) =
     (if k < length (timers s) \<and> due (timers s ! k) \<le> clock s
      then s\<lparr>timers := take k (timers s) @ drop (Suc k) (timers s),
             validated := validated s @ [timer_doc (timers s ! k)]\<rparr>
      else s)"

definition run :: "ServerState \<Rightarrow> Event list \<Rightarrow> ServerState" where
  "run s events = foldl step s events"

fun isTimerFires :: "Event \<Rightarrow> bool" where
  "isTimerFires (TimerFires k) = True"
| "isTimerFires _ = False"

section \<open>Inputs and outputs named by the specification\<close>

text \<open>
  The table row of the round-trip property, alone and inside a table block as the tool
  prints it (border lines, a header row, the data row between bars), and the issue it
  stands for.
\<close>

definition exampleRow :: jstring where
  "exampleRow = ascii ''4:12 '' @ [BOX_V] @ ascii '' error '' @ [BOX_V]
     @ ascii '' Missing description '' @ [BOX_V] @ ascii '' #/paths/~1foo/get''"

definition tableBorder :: "nat \<Rightarrow> nat \<Rightarrow> nat \<Rightarrow> jstring" where
  "tableBorder l m r =
     [l] @ replicate 6 BOX_H @ [m] @ replicate 7 BOX_H @ [m] @ replicate 21 BOX_H @ [m]
     @ replicate 19 BOX_H @ [r]"

definition headerRow :: jstring where
  "headerRow = [BOX_V] @ ascii '' Range '' @ [BOX_V] @ ascii '' Severity '' @ [BOX_V]
     @ ascii '' Description '' @ [BOX_V] @ ascii '' Path '' @ [BOX_V]"

definition dataRow :: jstring where
  "dataRow = [BOX_V] @ ascii '' '' @ exampleRow @ ascii '' '' @ [BOX_V]"

definition exampleTable :: jstring where
  "exampleTable =
     tableBorder 9484 9516 9488 @ [10] @ headerRow @ [10] @ tableBorder 9500 9532 9508 @ [10]
     @ dataRow @ [10] @ tableBorder 9492 9524 9496 @ [10]"

definition exampleIssue :: PostmanIssue where
  "exampleIssue = \<lparr>severity = Error, line = Exact 4, column = Exact 12,
     message = ascii ''Missing description'', rule = ascii ''governance-rule'',
     path = ascii ''#/paths/~1foo/get''\<rparr>"

text \<open>
  The issues the fallback synthesizes from four counts, the text that holds only the
  summary sentence of the specification, and the summary sentence of any five
  natural numbers written in decimal.
\<close>

definition syntheticIssues :: "nat \<Rightarrow> nat \<Rightarrow> nat \<Rightarrow> nat \<Rightarrow> PostmanIssue list" where
  "syntheticIssues e w i h =
     replicate e (genericIssue ''error'' ''Governance error'')
     @ replicate w (genericIssue ''warning'' ''Governance warning'')
     @ replicate i (genericIssue ''info'' ''Governance info'')
     @ replicate h (genericIssue ''hint'' ''Governance hint'')"


definition sentenceTail :: "nat \<Rightarrow> nat \<Rightarrow> nat \<Rightarrow> nat \<Rightarrow> jstring" where
  "sentenceTail e w i h =
     ascii '' problems ('' @ dec e @ ascii '' errors, '' @ dec w @ ascii '' warnings, ''
     @ dec i @ ascii '' infos, '' @ dec h @ ascii '' hints)''"

definition summarySentence :: "nat \<Rightarrow> nat \<Rightarrow> nat \<Rightarrow> nat \<Rightarrow> nat \<Rightarrow> jstring" where
  "summarySentence n e w i h = dec n @ sentenceTail e w i h"


definition hugeSummary :: jstring where
  "hugeSummary = ascii ''4294967296 problems (4294967296 errors, 0 warnings, 0 infos, 0 hints)''"

text \<open>
  A world, a scorer and a document to run the server on: the world is fixed but for
  the end of the child; the document passes every gate.
\<close>

definition exampleWorld :: "ChildOutcome \<Rightarrow> World" where
  "exampleWorld c =
     \<lparr>process_env = Map.empty,
      lint_file = ascii ''/tmp/postman-lint-1700000000000.yaml'',
      output_file = ascii ''/tmp/postman-output-1700000000001.txt'',
      timestamp_now = ascii ''2023-11-14T22:13:20.001Z'',
      write_failure = None, unlink_failure = None, child = c\<rparr>"

definition exampleScorer :: "jstring \<Rightarrow> GovernanceScorer" where
  "exampleScorer key =
     \<lparr>apiKey = key, mode = ascii ''local'', teamDomain = [], workspaceId = []\<rparr>"

definition exampleDocument :: TextDocument where
  "exampleDocument =
     \<lparr>doc_uri = ascii ''file:///api.yaml'', doc_text = ascii ''openapi: 3.0.0''\<rparr>"

text \<open>
  Settings with a command path of their own, settings with a low size limit, a document
  without a marker of an API description, and a world whose disk is full.
\<close>

definition customPathSettings :: PostmanLintServerSettings where
  "customPathSettings = DEFAULT_SETTINGS\<lparr>postmanCliPath := ascii ''/opt/postman/bin/postman''\<rparr>"

definition smallLimitSettings :: PostmanLintServerSettings where
  "smallLimitSettings = DEFAULT_SETTINGS\<lparr>maxFileSize := 5\<rparr>"


definition fullDiskWorld :: World where
  "fullDiskWorld =
     (exampleWorld TimedOut)\<lparr>write_failure :=
        Some (newError (ascii ''ENOSPC: no space left on device, write''))\<rparr>"

text \<open>A server with real-time linting switched on, nothing open and nothing pending.\<close>

definition realtimeState :: ServerState where
  "realtimeState =
     \<lparr>settings = DEFAULT_SETTINGS\<lparr>lintOnChange := True\<rparr>, hasConfigurationCapability = True,
      documents = [], clock = 0, timers = [], validated = [], cleared = []\<rparr>"

text \<open>
  The message of the timeout error, and an output of the tool that reports a file it
  could not parse.
\<close>

definition timeoutMessage :: jstring where
  "timeoutMessage = ascii ''Command timeout after 10 minutes''"

definition parseFailureOutput :: jstring where
  "parseFailureOutput = ascii ''Error: Couldn't parse the API definition''"

section \<open>The score as the specification words it\<close>



section \<open>Verification\<close>

subsection \<open>Summary and score\<close>

lemma normalizeSeverity_name: "normalizeSeverity (severity_name s) = s"
  by (cases s) (simp_all add: normalizeSeverity_def ascii_def toLowerCase_def lowerChar_def trim_def isWhiteSpace_def)

lemma countIssue_total: "total (countIssue s i) = total s"
  by (simp add: countIssue_def Let_def)

lemma countIssue_buckets:
  "error (countIssue s i) + warn (countIssue s i) + info (countIssue s i) + hint (countIssue s i)
   = error s + warn s + info s + hint s + 1"
  by (simp add: countIssue_def Let_def)

lemma foldl_countIssue_total: "total (foldl countIssue s issues) = total s"
  by (induction issues arbitrary: s) (simp_all add: countIssue_total)

lemma foldl_countIssue_buckets:
  "error (foldl countIssue s issues) + warn (foldl countIssue s issues)
   + info (foldl countIssue s issues) + hint (foldl countIssue s issues)
   = error s + warn s + info s + hint s + length issues"
proof (induction issues arbitrary: s)
  case Nil
  show ?case by simp
next
  case (Cons i issues)
  show ?case
    using Cons.IH [of "countIssue s i"] countIssue_buckets [of s i] by simp
qed

lemma summarizeIssues_total: "total (summarizeIssues issues) = length issues"
  by (simp add: summarizeIssues_def foldl_countIssue_total)

lemma summarizeIssues_buckets:
  "error (summarizeIssues issues) + warn (summarizeIssues issues)
   + info (summarizeIssues issues) + hint (summarizeIssues issues) = length issues"
  using foldl_countIssue_buckets [of "\<lparr>total = length issues, error = 0, warn = 0, info = 0, hint = 0\<rparr>" issues]
  by (simp add: summarizeIssues_def)

lemma pushTimes_throws: "pushTimes count issue issues = Inl e \<Longrightarrow> e = rangeError"
  by (cases count) (simp_all split: if_splits)

lemma fallbackIssues_throws: "fallbackIssues clean = Inl e \<Longrightarrow> e = rangeError"
  by (auto simp: fallbackIssues_def split: option.splits sum.splits dest: pushTimes_throws)

lemma parse_outcomes:
  "parseStdoutToIssuesAndSummary stdout = Inl rangeError
   \<or> (\<exists>found. parseStdoutToIssuesAndSummary stdout = Inr (found, summarizeIssues found)
         \<and> (found = tableIssues (stripAnsi stdout)
              \<or> fallbackIssues (stripAnsi stdout) = Inr found))"
proof (cases "tableIssues (stripAnsi stdout) = []")
  case False
  then show ?thesis by (simp add: parseStdoutToIssuesAndSummary_def Let_def)
next
  case True
  show ?thesis
  proof (cases "fallbackIssues (stripAnsi stdout)")
    case (Inl e)
    then show ?thesis
      using True fallbackIssues_throws [OF Inl]
      by (simp add: parseStdoutToIssuesAndSummary_def Let_def)
  next
    case (Inr found)
    then show ?thesis
      using True by (simp add: parseStdoutToIssuesAndSummary_def Let_def)
  qed
qed

text \<open>
  Claim C5. The summary of any list of issues has \<open>total\<close> equal to the length of the
  list and its four buckets add up to \<open>total\<close>. The parser either throws the error of
  a full array or returns a list, that of the table path or that of the fallback
  path, with the summary of this very list, so the same holds of every result of the
  parser.
\<close>

theorem summary_counts_issues:
  "total (summarizeIssues issues) = length issues
   \<and> error (summarizeIssues issues) + warn (summarizeIssues issues)
       + info (summarizeIssues issues) + hint (summarizeIssues issues)
       = total (summarizeIssues issues)
   \<and> (parseStdoutToIssuesAndSummary stdout = Inl rangeError
        \<or> (\<exists>found. parseStdoutToIssuesAndSummary stdout = Inr (found, summarizeIssues found)
              \<and> total (summarizeIssues found) = length found
              \<and> error (summarizeIssues found) + warn (summarizeIssues found)
                  + info (summarizeIssues found) + hint (summarizeIssues found)
                  = total (summarizeIssues found)
              \<and> (found = tableIssues (stripAnsi stdout)
                   \<or> fallbackIssues (stripAnsi stdout) = Inr found)))"
  using parse_outcomes [of stdout]
  by (simp add: summarizeIssues_total summarizeIssues_buckets)











subsection \<open>The output parser\<close>

lemma countIssue_plain:
  "countIssue s a =
     (if severity a = Error then s\<lparr>error := error s + 1\<rparr>
      else if severity a = Warn then s\<lparr>warn := warn s + 1\<rparr>
      else if severity a = Info then s\<lparr>info := info s + 1\<rparr>
      else s\<lparr>hint := hint s + 1\<rparr>)"
  by (simp add: countIssue_def normalizeSeverity_name Let_def)







lemma position_genericIssue:
  "line (genericIssue s m) = Exact 0 \<and> column (genericIssue s m) = Exact 0"
  by (simp add: genericIssue_def)


lemma synthetic_positions:
  "list_all (\<lambda>issue. line issue = Exact 0 \<and> column issue = Exact 0) (syntheticIssues e w i h)"
  by (auto simp: syntheticIssues_def list_all_iff position_genericIssue)

lemma synthetic_length: "length (syntheticIssues e w i h) = e + w + i + h"
  by (simp add: syntheticIssues_def)

lemma dec_digits: "c \<in> set (dec n) \<Longrightarrow> isDigit c"
proof (induction n arbitrary: c rule: dec.induct)
  case (1 n)
  show ?case
  proof (cases "n < 10")
    case True
    then show ?thesis using "1.prems" by (simp add: dec.simps [of n] isDigit_def)
  next
    case False
    have "n mod 10 < 10" by simp
    then have "isDigit (48 + n mod 10)" by (simp add: isDigit_def)
    then show ?thesis using False "1.prems" "1.IH" by (auto simp: dec.simps [of n])
  qed
qed

lemma dec_nonempty: "dec n \<noteq> []"
  by (simp add: dec.simps [of n])

lemma dec_all_digits: "list_all isDigit (dec n)"
  by (simp add: list_all_iff dec_digits)

lemma decimalValue_snoc: "decimalValue (ds @ [d]) = 10 * decimalValue ds + (d - 48)"
  by (simp add: decimalValue_def)

lemma decimalValue_dec: "decimalValue (dec n) = n"
proof (induction n rule: dec.induct)
  case (1 n)
  show ?case
  proof (cases "n < 10")
    case True
    then show ?thesis by (simp add: dec.simps [of n] decimalValue_def)
  next
    case False
    then show ?thesis using "1.IH" by (simp add: dec.simps [of n] decimalValue_snoc)
  qed
qed

lemma parseInt_dec: "n < 9007199254740992 \<Longrightarrow> parseInt (dec n) = Exact n"
  by (simp add: parseInt_def decimalValue_dec)

lemma parseInt_dec_huge: "9007199254740992 \<le> n \<Longrightarrow> parseInt (dec n) = Huge"
  by (simp add: parseInt_def decimalValue_dec)


lemma fallback_overflow:
  assumes "summaryMatch clean = Some (p, dec e, dec w, dec i, dec h)"
    and "MAX_ARRAY_LENGTH < e"
  shows "fallbackIssues clean = Inl rangeError"
proof (cases "e < 9007199254740992")
  case True
  then show ?thesis
    using assms(2) by (simp add: fallbackIssues_def assms(1) parseInt_dec)
next
  case False
  then show ?thesis
    by (simp add: fallbackIssues_def assms(1) parseInt_dec_huge)
qed

lemma digits1_digits:
  assumes "d \<noteq> []" and "list_all isDigit d" and "\<not> isDigit c"
  shows "digits1 (d @ c # r) = Some (d, c # r)"
proof -
  have all: "\<And>x. x \<in> set d \<Longrightarrow> isDigit x"
    using assms(2) by (simp add: list_all_iff)
  have t: "takeWhile isDigit (d @ c # r) = d"
    using assms(3) all by (simp add: takeWhile_append2)
  have dr: "dropWhile isDigit (d @ c # r) = c # r"
    using assms(3) all by (simp add: dropWhile_append2)
  show ?thesis by (simp add: digits1_def t dr assms(1))
qed

lemma digits1_dec: "\<not> isDigit c \<Longrightarrow> digits1 (dec n @ c # r) = Some (dec n, c # r)"
  by (simp add: digits1_digits dec_nonempty dec_all_digits)

lemma spaces_dec: "dropWhile isWhiteSpace (dec n @ r) = dec n @ r"
proof -
  obtain d ds where d: "dec n = d # ds"
    using dec_nonempty [of n] by (auto simp: neq_Nil_conv)
  then have "isDigit d" using dec_digits [of d n] by simp
  then have "\<not> isWhiteSpace d" by (auto simp: isDigit_def isWhiteSpace_def)
  then show ?thesis by (simp add: d)
qed

lemma tail_core_rest:
  "sentenceTail e w i h @ post = 32 # (ascii ''problems ('' @ dec e @ ascii '' errors, '' @ dec w
     @ ascii '' warnings, '' @ dec i @ ascii '' infos, '' @ dec h @ ascii '' hints)'' @ post)"
  by (simp add: sentenceTail_def ascii_def)

lemma tail_core:
  assumes "d \<noteq> []" and "list_all isDigit d"
  shows "summaryCore (d @ sentenceTail e w i h @ post) = Some (d, dec e, dec w, dec i, dec h)"
proof -
  have first: "digits1 (d @ sentenceTail e w i h @ post)
               = Some (d, sentenceTail e w i h @ post)"
    unfolding tail_core_rest
    by (rule digits1_digits [OF assms]) (simp add: isDigit_def)
  show ?thesis
    unfolding summaryCore_def first
    by (simp add: sentenceTail_def ascii_def digits1_dec isDigit_def spaces1_def spaces0_def
        lit_def optional_s_def isWhiteSpace_def spaces_dec)
qed

lemma summaryMatch_core: "summaryCore s = Some g \<Longrightarrow> summaryMatch s = Some g"
  by (cases s) simp_all

lemma starts_with_split:
  "starts_with (x @ y) p \<Longrightarrow> starts_with x p \<or> (y \<noteq> [] \<and> hd y \<in> set p)"
proof (induction x arbitrary: p)
  case Nil
  then show ?case by (cases p; cases y) auto
next
  case (Cons c x)
  show ?case
  proof (cases p)
    case Nil
    then show ?thesis by simp
  next
    case (Cons p0 ps)
    then have "c = p0" and "starts_with (x @ y) ps"
      using Cons.prems by simp_all
    then show ?thesis
      using Cons.IH [of ps] Cons by auto
  qed
qed

lemma problem_no_digit: "isDigit c \<Longrightarrow> c \<notin> set (ascii ''problem'')"
  by (auto simp: isDigit_def ascii_def)

lemma not_problem_after_spaces:
  assumes "\<not> js_includes v (ascii ''problem'')" and "isDigit d0"
  shows "\<not> starts_with (dropWhile isWhiteSpace (v @ d0 # r)) (ascii ''problem'')"
  using assms(1)
proof (induction v)
  case Nil
  have "\<not> isWhiteSpace d0" using assms(2) by (auto simp: isDigit_def isWhiteSpace_def)
  moreover have "d0 \<noteq> 112" using assms(2) by (auto simp: isDigit_def)
  ultimately show ?case by (simp add: ascii_def)
next
  case (Cons c v)
  have tail: "\<not> js_includes v (ascii ''problem'')" and here: "\<not> starts_with (c # v) (ascii ''problem'')"
    using Cons.prems by simp_all
  show ?case
  proof (cases "isWhiteSpace c")
    case True
    then show ?thesis using Cons.IH [OF tail] by simp
  next
    case False
    have "\<not> starts_with ((c # v) @ d0 # r) (ascii ''problem'')"
      using starts_with_split [of "c # v" "d0 # r" "ascii ''problem''"] here
        problem_no_digit [OF assms(2)] by auto
    then show ?thesis using False by simp
  qed
qed

lemma js_includes_suffix: "js_includes v p \<Longrightarrow> js_includes (a @ v) p"
proof (induction a)
  case Nil
  then show ?case by simp
next
  case (Cons c a)
  then show ?case by simp
qed

lemma dec_first: "\<exists>d0 r. dec n @ t = d0 # r \<and> isDigit d0"
proof -
  obtain d ds where d: "dec n = d # ds"
    using dec_nonempty [of n] by (auto simp: neq_Nil_conv)
  then have "isDigit d" using dec_digits [of d n] by simp
  then show ?thesis using d by simp
qed

lemma core_before_sentence:
  assumes "\<not> js_includes u (ascii ''problem'')" and "\<not> list_all isDigit u"
  shows "summaryCore (u @ dec n @ t) = None"
proof -
  obtain d0 r where rest: "dec n @ t = d0 # r" and d0: "isDigit d0"
    using dec_first by blast
  obtain x where x: "x \<in> set u" "\<not> isDigit x"
    using assms(2) by (auto simp: list_all_iff)
  let ?a = "takeWhile isDigit u" and ?v = "dropWhile isDigit u"
  have tk: "takeWhile isDigit (u @ dec n @ t) = ?a"
    using x by (simp add: takeWhile_append1)
  have dr: "dropWhile isDigit (u @ dec n @ t) = ?v @ d0 # r"
    using x rest by (simp add: dropWhile_append1)
  have u: "u = ?a @ ?v" by simp
  have "\<not> js_includes ?v (ascii ''problem'')"
    using assms(1) js_includes_suffix [of ?v "ascii ''problem''" ?a] by auto
  then have no: "\<not> starts_with (dropWhile isWhiteSpace (?v @ d0 # r)) (ascii ''problem'')"
    by (rule not_problem_after_spaces [OF _ d0])
  show ?thesis
    using no by (simp add: summaryCore_def digits1_def tk dr spaces1_def lit_def)
qed

lemma match_found:
  assumes "\<not> js_includes pre (ascii ''problem'')"
  shows "\<exists>p. summaryMatch (pre @ dec n @ sentenceTail e w i h @ post)
              = Some (p, dec e, dec w, dec i, dec h)"
  using assms
proof (induction pre)
  case Nil
  have "summaryCore (dec n @ sentenceTail e w i h @ post)
        = Some (dec n, dec e, dec w, dec i, dec h)"
    by (rule tail_core [OF dec_nonempty dec_all_digits])
  then show ?case using summaryMatch_core by auto
next
  case (Cons c pre)
  have tail: "\<not> js_includes pre (ascii ''problem'')"
    using Cons.prems by simp
  show ?case
  proof (cases "list_all isDigit (c # pre)")
    case True
    have ne: "(c # pre) @ dec n \<noteq> []" by simp
    have all: "list_all isDigit ((c # pre) @ dec n)"
      using True dec_all_digits [of n] by simp
    have "summaryCore (((c # pre) @ dec n) @ sentenceTail e w i h @ post)
          = Some ((c # pre) @ dec n, dec e, dec w, dec i, dec h)"
      by (rule tail_core [OF ne all])
    then have "summaryMatch ((c # pre) @ dec n @ sentenceTail e w i h @ post)
          = Some ((c # pre) @ dec n, dec e, dec w, dec i, dec h)"
      using summaryMatch_core [of "((c # pre) @ dec n) @ sentenceTail e w i h @ post"] by simp
    then show ?thesis by blast
  next
    case False
    have "summaryCore ((c # pre) @ dec n @ sentenceTail e w i h @ post) = None"
      by (rule core_before_sentence [OF Cons.prems False])
    then have "summaryMatch ((c # pre) @ dec n @ sentenceTail e w i h @ post)
               = summaryMatch (pre @ dec n @ sentenceTail e w i h @ post)"
      by simp
    then show ?thesis using Cons.IH [OF tail] by simp
  qed
qed

lemma fields_sets: "l \<in> set (splitFields s sep) \<Longrightarrow> set l \<subseteq> set s"
proof (induction s arbitrary: l)
  case Nil
  then show ?case by simp
next
  case (Cons c s)
  show ?case
  proof (cases "c = sep")
    case True
    then show ?thesis using Cons by auto
  next
    case False
    show ?thesis
    proof (cases "splitFields s sep")
      case Nil
      then show ?thesis using Cons.prems False by auto
    next
      case (Cons f fs)
      have f: "set f \<subseteq> set s" and fs: "\<And>x. x \<in> set fs \<Longrightarrow> set x \<subseteq> set s"
        using Cons.IH Cons by auto
      from Cons.prems False Cons have "l = c # f \<or> l \<in> set fs" by simp
      then show ?thesis using f fs by auto
    qed
  qed
qed

lemma split_sets: "l \<in> set (split s sep) \<Longrightarrow> set l \<subseteq> set s"
  using fields_sets [of l s sep] by (auto simp: split_def dest: in_set_takeD)

lemma starts_with_hd: "starts_with s (c # sub) \<Longrightarrow> c \<in> set s"
  by (cases s) simp_all

lemma js_includes_hd: "js_includes s (c # sub) \<Longrightarrow> c \<in> set s"
  by (induction s) (auto dest: starts_with_hd)

lemma parseLine_no_bar: "BOX_V \<notin> set l \<Longrightarrow> fst (parseLine (found, ty) l) = found"
  using js_includes_hd [of l BOX_V "[]"]
  by (auto simp: parseLine_def split: option.splits)

lemma foldl_no_bar:
  "(\<And>l. l \<in> set ls \<Longrightarrow> BOX_V \<notin> set l) \<Longrightarrow> fst (foldl parseLine (found, ty) ls) = found"
proof (induction ls arbitrary: ty)
  case Nil
  show ?case by simp
next
  case (Cons l ls)
  obtain ty' where st: "parseLine (found, ty) l = (found, ty')"
    using parseLine_no_bar [of l found ty] Cons.prems by (cases "parseLine (found, ty) l") auto
  show ?case using Cons.IH [of ty'] Cons.prems by (simp add: st)
qed

lemma tableIssues_no_bar: "BOX_V \<notin> set clean \<Longrightarrow> tableIssues clean = []"
  unfolding tableIssues_def
  by (rule foldl_no_bar) (use split_sets in blast)

lemma sentence_chars:
  "c \<in> set (summarySentence n e w i h) \<Longrightarrow> 32 \<le> c \<and> c < 120 \<and> c \<noteq> 86"
  by (auto simp: summarySentence_def sentenceTail_def ascii_def isDigit_def dest!: dec_digits)

lemma sentence_free:
  "27 \<notin> set (summarySentence n e w i h)"
  "10 \<notin> set (summarySentence n e w i h)"
  "BOX_V \<notin> set (summarySentence n e w i h)"
  "86 \<notin> set (summarySentence n e w i h)"
  using sentence_chars [of 27 n e w i h] sentence_chars [of 10 n e w i h]
    sentence_chars [of 9474 n e w i h] sentence_chars [of 86 n e w i h]
  by (auto simp: BOX_V_def)

lemma sentence_parse:
  assumes "stripAnsi stdout = pre @ summarySentence n e w i h @ post"
    and "\<not> js_includes pre (ascii ''problem'')"
    and "BOX_V \<notin> set pre" and "BOX_V \<notin> set post"
  shows "tableIssues (stripAnsi stdout) = []"
    and "\<exists>p. summaryMatch (stripAnsi stdout) = Some (p, dec e, dec w, dec i, dec h)"
proof -
  show "tableIssues (stripAnsi stdout) = []"
    by (rule tableIssues_no_bar) (simp add: assms(1) assms(3) assms(4) sentence_free)
  show "\<exists>p. summaryMatch (stripAnsi stdout) = Some (p, dec e, dec w, dec i, dec h)"
    using match_found [OF assms(2), of n e w i h post]
    by (simp add: assms(1) summarySentence_def)
qed


lemma sentence_overflow:
  assumes "stripAnsi stdout = pre @ summarySentence n e w i h @ post"
    and "\<not> js_includes pre (ascii ''problem'')"
    and "BOX_V \<notin> set pre" and "BOX_V \<notin> set post"
    and "MAX_ARRAY_LENGTH < e"
  shows "parseStdoutToIssuesAndSummary stdout = Inl rangeError"
proof -
  obtain p where m: "summaryMatch (stripAnsi stdout) = Some (p, dec e, dec w, dec i, dec h)"
    using sentence_parse(2) [OF assms(1-4)] by blast
  have f: "fallbackIssues (stripAnsi stdout) = Inl rangeError"
    by (rule fallback_overflow [OF m assms(5)])
  show ?thesis
    by (simp add: parseStdoutToIssuesAndSummary_def sentence_parse(1) [OF assms(1-4)] f)
qed


subsection \<open>The examples of the specification\<close>

lemma stripAnsi_plain: "27 \<notin> set s \<Longrightarrow> stripAnsi s = s"
  by (induction s) simp_all

lemma splitFields_plain: "sep \<notin> set s \<Longrightarrow> splitFields s sep = [s]"
  by (induction s) simp_all

lemma split_plain: "sep \<notin> set s \<Longrightarrow> split s sep = [s]"
  by (simp add: split_def splitFields_plain MAX_ARRAY_LENGTH_def)

lemma exampleRow_plain: "stripAnsi exampleRow = exampleRow"
  by (simp add: stripAnsi_plain exampleRow_def ascii_def BOX_V_def)

lemma exampleRow_lines: "split exampleRow 10 = [exampleRow]"
  by (simp add: split_plain exampleRow_def ascii_def BOX_V_def)

lemma exampleRow_cells:
  "rowCells exampleRow = [ascii ''4:12'', ascii ''error'', ascii ''Missing description'', ascii ''#/paths/~1foo/get'']"
  by (simp add: rowCells_def split_def MAX_ARRAY_LENGTH_def exampleRow_def ascii_def BOX_V_def
      trim_def isWhiteSpace_def)

lemma exampleRow_noHeader: "\<not> js_includes exampleRow (ascii ''Validation Type:'')"
  by (simp add: exampleRow_def ascii_def BOX_V_def)

lemma exampleRow_bar: "js_includes exampleRow [BOX_V]"
  by (simp add: exampleRow_def ascii_def BOX_V_def)

lemma exampleCells_data:
  "\<not> isHeaderOrSeparator [ascii ''4:12'', ascii ''error'', ascii ''Missing description'', ascii ''#/paths/~1foo/get'']"
  by (simp add: isHeaderOrSeparator_def ascii_def BOX_H_def)

lemma range_4_12: "rangeMatch (ascii ''4:12'') = Some (ascii ''4'', ascii ''12'')"
  by (simp add: rangeMatch_def isDigit_def ascii_def Let_def)

lemma parseInt_4_12: "parseInt (ascii ''4'') = Exact 4" "parseInt (ascii ''12'') = Exact 12"
  by (simp_all add: parseInt_def decimalValue_def ascii_def)

lemma normalize_error: "normalizeSeverity (ascii ''error'') = Error"
  using normalizeSeverity_name [of Error] by simp

lemma exampleCells_issue:
  "rowIssue ty [ascii ''4:12'', ascii ''error'', ascii ''Missing description'', ascii ''#/paths/~1foo/get'']
   = Some \<lparr>severity = Error, line = Exact 4, column = Exact 12, message = ascii ''Missing description'',
        rule = ty @ ascii ''-rule'', path = ascii ''#/paths/~1foo/get''\<rparr>"
  apply (simp only: rowIssue.simps)
  apply (simp only: range_4_12 normalize_error)
  apply (simp add: parseInt_4_12)
  done

lemma exampleRow_parseLine:
  "parseLine (issues, ty) exampleRow
   = (issues @ [\<lparr>severity = Error, line = Exact 4, column = Exact 12, message = ascii ''Missing description'',
        rule = ty @ ascii ''-rule'', path = ascii ''#/paths/~1foo/get''\<rparr>], ty)"
  by (simp add: parseLine_def exampleRow_noHeader exampleRow_bar exampleRow_cells
      exampleCells_data range_4_12 parseInt_4_12 normalize_error)

lemma governance_rule: "ascii ''governance'' @ ascii ''-rule'' = ascii ''governance-rule''"
  by (simp add: ascii_def)

lemma exampleRow_table: "tableIssues exampleRow = [exampleIssue]"
  by (simp add: tableIssues_def exampleRow_lines exampleRow_parseLine governance_rule
      exampleIssue_def)

lemma exampleIssue_summary:
  "summarizeIssues [exampleIssue] = \<lparr>total = 1, error = 1, warn = 0, info = 0, hint = 0\<rparr>"
  by (simp add: summarizeIssues_def countIssue_plain exampleIssue_def)

lemma exampleRow_parse:
  "parseStdoutToIssuesAndSummary exampleRow
   = Inr ([exampleIssue], \<lparr>total = 1, error = 1, warn = 0, info = 0, hint = 0\<rparr>)"
  by (simp add: parseStdoutToIssuesAndSummary_def exampleRow_plain exampleRow_table Let_def
      exampleIssue_summary)

lemma splitFields_line:
  "sep \<notin> set a \<Longrightarrow> splitFields (a @ sep # b) sep = a # splitFields b sep"
  by (induction a) simp_all

lemma parseLine_other:
  assumes "BOX_V \<notin> set l" and "86 \<notin> set l"
  shows "parseLine st l = st"
proof -
  have v: "\<not> js_includes l (ascii ''Validation Type:'')"
    using js_includes_hd [of l 86] assms(2) by (auto simp: ascii_def)
  have b: "\<not> js_includes l [BOX_V]"
    using js_includes_hd [of l BOX_V "[]"] assms(1) by auto
  show ?thesis by (cases st) (simp add: parseLine_def v b)
qed

lemma border_chars:
  "l \<noteq> c \<Longrightarrow> m \<noteq> c \<Longrightarrow> r \<noteq> c \<Longrightarrow> c \<noteq> BOX_H \<Longrightarrow> c \<notin> set (tableBorder l m r)"
  by (auto simp: tableBorder_def)

lemma headerRow_free: "10 \<notin> set headerRow" "27 \<notin> set headerRow"
  by (simp_all add: headerRow_def ascii_def BOX_V_def)

lemma dataRow_free: "10 \<notin> set dataRow" "27 \<notin> set dataRow"
  by (simp_all add: dataRow_def exampleRow_def ascii_def BOX_V_def)

lemma headerRow_parseLine: "parseLine st headerRow = st"
proof -
  have v: "\<not> js_includes headerRow (ascii ''Validation Type:'')"
    by (simp add: headerRow_def ascii_def BOX_V_def)
  have b: "js_includes headerRow [BOX_V]"
    by (simp add: headerRow_def ascii_def BOX_V_def)
  have c: "rowCells headerRow = [ascii ''Range'', ascii ''Severity'', ascii ''Description'', ascii ''Path'']"
    by (simp add: rowCells_def split_def MAX_ARRAY_LENGTH_def headerRow_def ascii_def BOX_V_def
        trim_def isWhiteSpace_def)
  have h: "isHeaderOrSeparator (rowCells headerRow)"
    by (simp add: c isHeaderOrSeparator_def ascii_def)
  show ?thesis by (cases st) (simp add: parseLine_def v b h)
qed

lemma dataRow_cells:
  "rowCells dataRow = [ascii ''4:12'', ascii ''error'', ascii ''Missing description'', ascii ''#/paths/~1foo/get'']"
  by (simp add: rowCells_def split_def MAX_ARRAY_LENGTH_def dataRow_def exampleRow_def ascii_def
      BOX_V_def trim_def isWhiteSpace_def)

lemma dataRow_parseLine:
  "parseLine (issues, ty) dataRow
   = (issues @ [\<lparr>severity = Error, line = Exact 4, column = Exact 12, message = ascii ''Missing description'',
        rule = ty @ ascii ''-rule'', path = ascii ''#/paths/~1foo/get''\<rparr>], ty)"
proof -
  have v: "\<not> js_includes dataRow (ascii ''Validation Type:'')"
    by (simp add: dataRow_def exampleRow_def ascii_def BOX_V_def)
  have b: "js_includes dataRow [BOX_V]"
    by (simp add: dataRow_def ascii_def BOX_V_def)
  show ?thesis
    by (simp add: parseLine_def v b dataRow_cells exampleCells_data range_4_12 parseInt_4_12
        normalize_error)
qed

lemma exampleTable_plain: "stripAnsi exampleTable = exampleTable"
  by (rule stripAnsi_plain)
    (simp add: exampleTable_def border_chars headerRow_free dataRow_free BOX_H_def)

lemma exampleTable_lines:
  "split exampleTable 10
   = [tableBorder 9484 9516 9488, headerRow, tableBorder 9500 9532 9508, dataRow,
      tableBorder 9492 9524 9496, []]"
  by (simp add: split_def MAX_ARRAY_LENGTH_def exampleTable_def splitFields_line border_chars
      headerRow_free dataRow_free BOX_H_def)

lemma exampleTable_table: "tableIssues exampleTable = [exampleIssue]"
  by (simp add: tableIssues_def exampleTable_lines parseLine_other border_chars BOX_V_def
      BOX_H_def headerRow_parseLine dataRow_parseLine governance_rule exampleIssue_def)

lemma exampleTable_parse:
  "parseStdoutToIssuesAndSummary exampleTable
   = Inr ([exampleIssue], \<lparr>total = 1, error = 1, warn = 0, info = 0, hint = 0\<rparr>)"
  by (simp add: parseStdoutToIssuesAndSummary_def exampleTable_plain exampleTable_table Let_def
      exampleIssue_summary)

text \<open>
  Claim C7. The row \<open>4:12 | error | Missing description | #/paths/~1foo/get\<close> (the
  bars being U+2502), alone or as the one data row of a table block with its
  borders and header, parses to exactly one issue: severity error, line 4, column 12,
  the message, the path, and the rule \<open>governance-rule\<close>.
\<close>

theorem table_row_parses:
  "parseStdoutToIssuesAndSummary exampleRow
     = Inr ([exampleIssue], \<lparr>total = 1, error = 1, warn = 0, info = 0, hint = 0\<rparr>)
   \<and> parseStdoutToIssuesAndSummary exampleTable
     = Inr ([exampleIssue], \<lparr>total = 1, error = 1, warn = 0, info = 0, hint = 0\<rparr>)
   \<and> exampleIssue = \<lparr>severity = Error, line = Exact 4, column = Exact 12,
        message = ascii ''Missing description'', rule = ascii ''governance-rule'',
        path = ascii ''#/paths/~1foo/get''\<rparr>"
  by (simp add: exampleRow_parse exampleTable_parse) (simp add: exampleIssue_def)

lemma dec_examples:
  "dec 3 = ascii ''3''" "dec 1 = ascii ''1''" "dec (Suc 0) = ascii ''1''" "dec 0 = ascii ''0''"
  "dec 4294967296 = ascii ''4294967296''"
  by (simp_all add: dec.simps ascii_def)





lemma empty_sides: "\<not> js_includes [] (ascii ''problem'')" "BOX_V \<notin> set []"
  by (simp_all add: ascii_def)



lemma hugeSummary_clean:
  "stripAnsi hugeSummary = [] @ summarySentence 4294967296 4294967296 0 0 0 @ []"
proof -
  have "hugeSummary = summarySentence 4294967296 4294967296 0 0 0"
    by (simp add: hugeSummary_def summarySentence_def sentenceTail_def dec_examples ascii_def)
  then show ?thesis
    using stripAnsi_plain [of "summarySentence 4294967296 4294967296 0 0 0"]
      sentence_free(1) [of 4294967296 4294967296 0 0 0]
    by simp
qed

lemma hugeSummary_throws: "parseStdoutToIssuesAndSummary hugeSummary = Inl rangeError"
proof -
  have big: "MAX_ARRAY_LENGTH < 4294967296"
    by (simp add: MAX_ARRAY_LENGTH_def)
  show ?thesis
    by (rule sentence_overflow [OF hugeSummary_clean empty_sides(1) empty_sides(2)
          empty_sides(2) big])
qed


subsection \<open>Running the tool\<close>

lemma starts_with_append: "starts_with (sub @ post) sub"
  by (induction sub) simp_all

lemma js_includes_prefix: "js_includes (sub @ post) sub"
  using starts_with_append [of sub post] by (cases "sub @ post") simp_all

lemma js_includes_append: "js_includes (pre @ sub @ post) sub"
  by (induction pre) (simp_all add: js_includes_prefix)

lemma key_in_command: "js_includes (fullCommand tempFile command args key) key"
proof -
  have "fullCommand tempFile command args key
        = (ascii ''POSTMAN_API_KEY='' @ [DQUOTE]) @ key
          @ ([DQUOTE] @ ascii '' '' @ command
             @ ascii '' '' @ join args (ascii '' '') @ ascii '' > '' @ [DQUOTE] @ tempFile
             @ [DQUOTE] @ ascii '' 2>&1'')"
    by (simp add: fullCommand_def)
  then show ?thesis
    using js_includes_append [of "ascii ''POSTMAN_API_KEY='' @ [DQUOTE]" key] by simp
qed

lemma example_command:
  "fullCommand (ascii ''/tmp/postman-output-1700000000001.txt'') (ascii ''postman'')
     [ascii ''api'', ascii ''lint'', specPath] key
   = ascii ''POSTMAN_API_KEY='' @ [DQUOTE] @ key @ [DQUOTE]
     @ ascii '' postman api lint '' @ specPath @ ascii '' > '' @ [DQUOTE]
     @ ascii ''/tmp/postman-output-1700000000001.txt'' @ [DQUOTE] @ ascii '' 2>&1''"
  by (simp add: fullCommand_def ascii_def)

text \<open>
  Claim C1 says that the key reaches the child through the environment only and that
  no element of the argument vector contains it. The environment does carry the key,
  but \<open>executeWithTempFile\<close> also writes it into the command line it hands to
  \<open>sh -c\<close>: the third element of the argument vector contains the key, whatever
  the key is, and two different keys give two different argument vectors.
\<close>

theorem credential_in_argv:
  "spawn_env (executeWithTempFile_spawn w command args key) (ascii ''POSTMAN_API_KEY'') = Some key
   \<and> js_includes (argv (executeWithTempFile_spawn w command args key) ! 2) key
   \<and> argv (executeWithTempFile_spawn (exampleWorld TimedOut) (ascii ''postman'')
        [ascii ''api'', ascii ''lint'', ascii ''/tmp/spec.yaml''] (ascii ''PMAK-1''))
     = [ascii ''sh'', ascii ''-c'',
        ascii ''POSTMAN_API_KEY='' @ [DQUOTE] @ ascii ''PMAK-1'' @ [DQUOTE]
        @ ascii '' postman api lint '' @ ascii ''/tmp/spec.yaml'' @ ascii '' > '' @ [DQUOTE]
        @ ascii ''/tmp/postman-output-1700000000001.txt'' @ [DQUOTE] @ ascii '' 2>&1'']
   \<and> argv (executeWithTempFile_spawn (exampleWorld TimedOut) (ascii ''postman'')
        [ascii ''api'', ascii ''lint'', ascii ''/tmp/spec.yaml''] (ascii ''PMAK-1''))
     \<noteq> argv (executeWithTempFile_spawn (exampleWorld TimedOut) (ascii ''postman'')
        [ascii ''api'', ascii ''lint'', ascii ''/tmp/spec.yaml''] (ascii ''PMAK-2''))"
proof -
  have a: "js_includes (argv (executeWithTempFile_spawn w command args key) ! 2) key"
    by (simp add: argv_def executeWithTempFile_spawn_def key_in_command)
  have b: "ascii ''PMAK-1'' \<noteq> ascii ''PMAK-2''"
    by (simp add: ascii_def)
  have c: "spawn_env (executeWithTempFile_spawn w command args key) (ascii ''POSTMAN_API_KEY'')
           = Some key"
    by (simp add: executeWithTempFile_spawn_def)
  show ?thesis
    using a b c
    by (simp add: argv_def executeWithTempFile_spawn_def exampleWorld_def example_command)
qed

lemma summaryCore_problem: "summaryCore s = Some g \<Longrightarrow> js_includes s (ascii ''problem'')"
proof -
  assume "summaryCore s = Some g"
  then obtain d r1 r2 r3 where d: "digits1 s = Some (d, r1)" and sp: "spaces1 r1 = Some r2"
    and l: "lit ''problem'' r2 = Some r3"
    by (auto simp: summaryCore_def split: bind_splits)
  have s: "s = d @ r1"
    using d by (auto simp: digits1_def split: if_splits)
  have r1: "r1 = takeWhile isWhiteSpace r1 @ r2"
    using sp by (auto simp: spaces1_def split: if_splits)
  have "starts_with r2 (ascii ''problem'')"
    using l by (auto simp: lit_def split: if_splits)
  then have "js_includes r2 (ascii ''problem'')"
    by (cases r2) (simp_all add: ascii_def)
  then have "js_includes (takeWhile isWhiteSpace r1 @ r2) (ascii ''problem'')"
    by (rule js_includes_suffix)
  then have "js_includes r1 (ascii ''problem'')"
    using r1 by simp
  then show ?thesis
    using js_includes_suffix [of r1 "ascii ''problem''" d] s by simp
qed

lemma summaryMatch_problem: "\<not> js_includes s (ascii ''problem'') \<Longrightarrow> summaryMatch s = None"
proof (induction s)
  case Nil
  then show ?case using summaryCore_problem [of "[]"] by (cases "summaryCore []") auto
next
  case (Cons c s)
  have "summaryCore (c # s) = None"
    using summaryCore_problem [of "c # s"] Cons.prems by (cases "summaryCore (c # s)") auto
  moreover have "\<not> js_includes s (ascii ''problem'')"
    using Cons.prems by simp
  ultimately show ?case using Cons.IH by simp
qed

lemma parse_plain_text:
  assumes "27 \<notin> set s" and "BOX_V \<notin> set s" and "\<not> js_includes s (ascii ''problem'')"
  shows "parseStdoutToIssuesAndSummary s
         = Inr ([], \<lparr>total = 0, error = 0, warn = 0, info = 0, hint = 0\<rparr>)"
  by (simp add: parseStdoutToIssuesAndSummary_def stripAnsi_plain assms(1)
      tableIssues_no_bar assms(2) fallbackIssues_def summaryMatch_problem assms(3)
      summarizeIssues_def)

lemma timeout_parse:
  "parseStdoutToIssuesAndSummary timeoutMessage
   = Inr ([], \<lparr>total = 0, error = 0, warn = 0, info = 0, hint = 0\<rparr>)"
  by (rule parse_plain_text) (simp_all add: timeoutMessage_def ascii_def BOX_V_def)

lemma timeout_not_parse_error: "\<not> js_includes timeoutMessage (ascii ''Error:'')"
  by (simp add: timeoutMessage_def ascii_def)

lemma spawnError_parse:
  "parseStdoutToIssuesAndSummary (ascii ''spawn sh ENOENT'')
   = Inr ([], \<lparr>total = 0, error = 0, warn = 0, info = 0, hint = 0\<rparr>)"
  by (rule parse_plain_text) (simp_all add: ascii_def BOX_V_def)

lemma spawnError_not_parse_error: "\<not> js_includes (ascii ''spawn sh ENOENT'') (ascii ''Error:'')"
  by (simp add: ascii_def)

lemma computeScore_empty: "rnd 100 = 100 \<Longrightarrow> rnd 10000 = 10000 \<Longrightarrow> computeScore rnd [] = 100"
  by (simp add: computeScore_def finishScore_def mathRound_def)

lemma scoreSpecFile_closed:
  "scoreSpecFile rnd (w\<lparr>child := Closed code (Inr out)\<rparr>) this specPath
   = (if js_includes out (ascii ''Error:'') \<and> js_includes out (ascii ''Couldn't parse'')
      then failedScore w specPath (ascii ''Failed to parse API specification'')
      else (case parseStdoutToIssuesAndSummary out of
              Inr (found, counts) \<Rightarrow>
                \<lparr>sr_score = computeScore rnd found, sr_violations = found,
                 sr_violationCount = length found, sr_issues = found, sr_summary = counts,
                 sr_api = basename specPath, sr_timestamp = timestamp_now w, sr_error = None\<rparr>
            | Inl e \<Rightarrow> failedScore w specPath (err_message e)))"
  by (simp add: scoreSpecFile_def executeWithTempFile_def failedScore_def
      split: sum.split prod.split)

lemma scoreSpecFile_failures:
  "scoreSpecFile rnd (w\<lparr>child := SpawnFailed e\<rparr>) this specPath
   = scoreSpecFile rnd (w\<lparr>child := Closed None (Inr (caughtOutput e))\<rparr>) this specPath"
  "scoreSpecFile rnd (w\<lparr>child := TimedOut\<rparr>) this specPath
   = scoreSpecFile rnd (w\<lparr>child := Closed None (Inr timeoutMessage)\<rparr>) this specPath"
  "scoreSpecFile rnd (w\<lparr>child := Closed code (Inl readError)\<rparr>) this specPath
   = scoreSpecFile rnd (w\<lparr>child := Closed None
         (Inr (ascii ''Failed to read output file: '' @ errorToString readError))\<rparr>) this specPath"
  by (simp_all add: scoreSpecFile_def executeWithTempFile_def caughtOutput_def newError_def
      timeoutMessage_def failedScore_def Let_def split: sum.split prod.split)

lemma scoreSpecFile_timeout:
  "scoreSpecFile rnd (w\<lparr>child := TimedOut\<rparr>) this specPath
   = \<lparr>sr_score = computeScore rnd [], sr_violations = [], sr_violationCount = 0, sr_issues = [],
      sr_summary = \<lparr>total = 0, error = 0, warn = 0, info = 0, hint = 0\<rparr>,
      sr_api = basename specPath, sr_timestamp = timestamp_now w, sr_error = None\<rparr>"
  by (simp add: scoreSpecFile_failures(2) scoreSpecFile_closed timeout_parse
      timeout_not_parse_error)

lemma scoreSpecFile_spawnError:
  "scoreSpecFile rnd (w\<lparr>child := SpawnFailed (newError (ascii ''spawn sh ENOENT''))\<rparr>) this specPath
   = \<lparr>sr_score = computeScore rnd [], sr_violations = [], sr_violationCount = 0, sr_issues = [],
      sr_summary = \<lparr>total = 0, error = 0, warn = 0, info = 0, hint = 0\<rparr>,
      sr_api = basename specPath, sr_timestamp = timestamp_now w, sr_error = None\<rparr>"
proof -
  have c: "caughtOutput (newError (ascii ''spawn sh ENOENT'')) = ascii ''spawn sh ENOENT''"
    by (simp add: caughtOutput_def newError_def)
  show ?thesis
    by (simp add: scoreSpecFile_failures(1) scoreSpecFile_closed c spawnError_parse
        spawnError_not_parse_error)
qed

lemma parseFailure_marks:
  "js_includes parseFailureOutput (ascii ''Error:'')"
  "js_includes parseFailureOutput (ascii ''Couldn't parse'')"
  by (simp_all add: parseFailureOutput_def ascii_def)

lemma scoreSpecFile_parseFailure:
  "scoreSpecFile rnd (w\<lparr>child := Closed code (Inr parseFailureOutput)\<rparr>) this specPath
   = failedScore w specPath (ascii ''Failed to parse API specification'')"
  by (simp add: scoreSpecFile_closed parseFailure_marks)

lemma scoreSpecFile_overflow:
  "scoreSpecFile rnd (w\<lparr>child := Closed code (Inr hugeSummary)\<rparr>) this specPath
   = failedScore w specPath (ascii ''Invalid array length'')"
proof -
  have "\<not> js_includes hugeSummary (ascii ''Error:'')"
    by (simp add: hugeSummary_def ascii_def)
  then show ?thesis
    by (simp add: scoreSpecFile_closed hugeSummary_throws rangeError_def)
qed

text \<open>
  Claim C10 says that after a failure of the tool \<open>scoreSpecFile\<close> returns score 0,
  no issues and a message of the error. It does so when the output reports a file that
  could not be parsed and when the parser throws. But after the timeout, and after a
  spawn error such as \<open>spawn sh ENOENT\<close>, the inner \<open>catch\<close> takes the message of
  the error for the output of the tool, nothing is parsed from it, and the result is
  the score 100 with no issues and no error.
\<close>

theorem failures_score_full_marks:
  assumes "rnd 100 = 100" and "rnd 10000 = 10000"
  shows "scoreSpecFile rnd (w\<lparr>child := TimedOut\<rparr>) this specPath
           = \<lparr>sr_score = 100, sr_violations = [], sr_violationCount = 0, sr_issues = [],
              sr_summary = \<lparr>total = 0, error = 0, warn = 0, info = 0, hint = 0\<rparr>,
              sr_api = basename specPath, sr_timestamp = timestamp_now w, sr_error = None\<rparr>
         \<and> scoreSpecFile rnd (w\<lparr>child := SpawnFailed (newError (ascii ''spawn sh ENOENT''))\<rparr>)
               this specPath
           = \<lparr>sr_score = 100, sr_violations = [], sr_violationCount = 0, sr_issues = [],
              sr_summary = \<lparr>total = 0, error = 0, warn = 0, info = 0, hint = 0\<rparr>,
              sr_api = basename specPath, sr_timestamp = timestamp_now w, sr_error = None\<rparr>
         \<and> scoreSpecFile rnd (w\<lparr>child := Closed code (Inr parseFailureOutput)\<rparr>) this specPath
           = failedScore w specPath (ascii ''Failed to parse API specification'')
         \<and> scoreSpecFile rnd (w\<lparr>child := Closed code (Inr hugeSummary)\<rparr>) this specPath
           = failedScore w specPath (ascii ''Invalid array length'')
         \<and> failedScore w specPath msg
           = \<lparr>sr_score = 0, sr_violations = [], sr_violationCount = 0, sr_issues = [],
              sr_summary = \<lparr>total = 0, error = 0, warn = 0, info = 0, hint = 0\<rparr>,
              sr_api = basename specPath, sr_timestamp = timestamp_now w, sr_error = Some msg\<rparr>"
  by (simp add: scoreSpecFile_timeout scoreSpecFile_spawnError scoreSpecFile_parseFailure
      scoreSpecFile_overflow computeScore_empty [OF assms] failedScore_def)

theorem failures_score_full_marks_witness:
  "sr_score (scoreSpecFile (\<lambda>x. x) (exampleWorld TimedOut) (exampleScorer (ascii ''PMAK-1''))
      (ascii ''/tmp/spec.yaml'')) = 100
   \<and> sr_issues (scoreSpecFile (\<lambda>x. x) (exampleWorld TimedOut) (exampleScorer (ascii ''PMAK-1''))
      (ascii ''/tmp/spec.yaml'')) = []
   \<and> sr_error (scoreSpecFile (\<lambda>x. x) (exampleWorld TimedOut) (exampleScorer (ascii ''PMAK-1''))
      (ascii ''/tmp/spec.yaml'')) = None"
proof -
  have w: "(exampleWorld TimedOut)\<lparr>child := TimedOut\<rparr> = exampleWorld TimedOut"
    by (simp add: exampleWorld_def)
  have a: "(\<lambda>x::real. x) 100 = 100" and b: "(\<lambda>x::real. x) 10000 = 10000"
    by simp_all
  show ?thesis
    using failures_score_full_marks [OF a b, where w = "exampleWorld TimedOut"
        and this = "exampleScorer (ascii ''PMAK-1'')" and specPath = "ascii ''/tmp/spec.yaml''"]
    by (simp add: w)
qed

subsection \<open>Validating a document\<close>

lemma publications_simps:
  "publications [] = []"
  "publications (SendDiagnostics uri ds # es) = (uri, ds) # publications es"
  "publications (ConsoleWarn m # es) = publications es"
  "publications (ConsoleError m # es) = publications es"
  "publications (WriteFile f c # es) = publications es"
  "publications (UnlinkFile f # es) = publications es"
  "publications (Spawn sc # es) = publications es"
  "publications (es @ fs) = publications es @ publications fs"
  by (simp_all add: publications_def)

lemma spawns_simps:
  "spawns [] = []"
  "spawns (SendDiagnostics uri ds # es) = spawns es"
  "spawns (ConsoleWarn m # es) = spawns es"
  "spawns (ConsoleError m # es) = spawns es"
  "spawns (WriteFile f c # es) = spawns es"
  "spawns (UnlinkFile f # es) = spawns es"
  "spawns (Spawn sc # es) = sc # spawns es"
  "spawns (es @ fs) = spawns es @ spawns fs"
  by (simp_all add: spawns_def)

lemma cleanup_quiet: "publications (cleanupTempFile w) = []" "spawns (cleanupTempFile w) = []"
  by (simp_all add: cleanupTempFile_def publications_simps spawns_simps split: option.split)

lemma cleanup_shown: "foldl publish shown (cleanupTempFile w) = shown"
  by (simp add: cleanupTempFile_def split: option.split)


lemma validate_runs:
  assumes "enable cfg" and "length (doc_text d) \<le> maxFileSize cfg"
    and "isSupportedFile (doc_uri d)" and "isOpenAPIContent (doc_text d)"
  shows "validateTextDocument rnd w cfg (Some this) d
         = (case write_failure w of
              None \<Rightarrow>
                WriteFile (lint_file w) (doc_text d) # Spawn (scoreSpecFile_spawn w this (lint_file w))
                # cleanupTempFile w
                @ [SendDiagnostics (doc_uri d)
                     (map toDiagnostic (sr_issues (scoreSpecFile rnd w this (lint_file w))))]
            | Some e \<Rightarrow>
                WriteFile (lint_file w) (doc_text d) # cleanupTempFile w
                @ [ConsoleError (ascii ''Error validating '' @ doc_uri d @ ascii '': ''
                     @ errorToString e),
                   SendDiagnostics (doc_uri d) [errorDiagnostic e]])"
  using assms
  by (simp add: validateTextDocument_def lintDocumentContent_def Let_def split: option.split)

lemma exampleDocument_gates:
  "isSupportedFile (doc_uri exampleDocument)" "isOpenAPIContent (doc_text exampleDocument)"
  "length (doc_text exampleDocument) = 14"
  by (simp_all add: exampleDocument_def isSupportedFile_def isOpenAPIContent_def ends_with_def
      toLowerCase_def lowerChar_def ascii_def DQUOTE_def)


lemma settings_examples:
  "enable DEFAULT_SETTINGS" "maxFileSize DEFAULT_SETTINGS = 1048576"
  "enable customPathSettings" "maxFileSize customPathSettings = 1048576"
  "postmanCliPath customPathSettings = ascii ''/opt/postman/bin/postman''"
  "enable smallLimitSettings" "maxFileSize smallLimitSettings = 5"
  by (simp_all add: DEFAULT_SETTINGS_def customPathSettings_def smallLimitSettings_def)




lemma lint_command:
  "spawn_args (scoreSpecFile_spawn w this specPath)
   = [ascii ''-c'',
      ascii ''POSTMAN_API_KEY='' @ [DQUOTE] @ apiKey this @ [DQUOTE]
      @ ascii '' postman api lint '' @ specPath @ ascii '' > '' @ [DQUOTE] @ output_file w
      @ [DQUOTE] @ ascii '' 2>&1'']"
  "spawn_command (scoreSpecFile_spawn w this specPath) = ascii ''sh''"
  by (simp_all add: scoreSpecFile_spawn_def executeWithTempFile_spawn_def fullCommand_def ascii_def)

text \<open>
  Claim C4 says that the tool is launched through the configured \<open>postmanCliPath\<close>.
  The run of a document that passes the gates spawns \<open>sh -c\<close> with a command line
  whose program is the literal \<open>postman\<close>, whatever the settings say; the witness
  has \<open>/opt/postman/bin/postman\<close> configured and a command line without it.
\<close>

theorem tool_command_is_fixed:
  assumes "enable cfg" and "length (doc_text d) \<le> maxFileSize cfg"
    and "isSupportedFile (doc_uri d)" and "isOpenAPIContent (doc_text d)"
    and "write_failure w = None"
  shows "map spawn_command (spawns (validateTextDocument rnd w cfg (Some this) d)) = [ascii ''sh'']
         \<and> map spawn_args (spawns (validateTextDocument rnd w cfg (Some this) d))
           = [[ascii ''-c'',
               ascii ''POSTMAN_API_KEY='' @ [DQUOTE] @ apiKey this @ [DQUOTE]
               @ ascii '' postman api lint '' @ lint_file w @ ascii '' > '' @ [DQUOTE]
               @ output_file w @ [DQUOTE] @ ascii '' 2>&1'']]"
  using assms(5)
  by (simp add: validate_runs [OF assms(1-4)] spawns_simps cleanup_quiet lint_command)

lemma custom_command:
  "\<not> js_includes
       (ascii ''POSTMAN_API_KEY='' @ [DQUOTE] @ ascii ''PMAK-1'' @ [DQUOTE]
        @ ascii '' postman api lint '' @ ascii ''/tmp/postman-lint-1700000000000.yaml''
        @ ascii '' > '' @ [DQUOTE] @ ascii ''/tmp/postman-output-1700000000001.txt''
        @ [DQUOTE] @ ascii '' 2>&1'')
       (ascii ''/opt/postman/bin/postman'')"
  by (simp add: ascii_def DQUOTE_def)

theorem tool_command_is_fixed_witness:
  "postmanCliPath customPathSettings = ascii ''/opt/postman/bin/postman''
   \<and> map spawn_args (spawns (validateTextDocument (\<lambda>x. x) (exampleWorld TimedOut)
        customPathSettings (Some (exampleScorer (ascii ''PMAK-1''))) exampleDocument))
     = [[ascii ''-c'',
         ascii ''POSTMAN_API_KEY='' @ [DQUOTE] @ ascii ''PMAK-1'' @ [DQUOTE]
         @ ascii '' postman api lint '' @ ascii ''/tmp/postman-lint-1700000000000.yaml''
         @ ascii '' > '' @ [DQUOTE] @ ascii ''/tmp/postman-output-1700000000001.txt''
         @ [DQUOTE] @ ascii '' 2>&1'']]
   \<and> \<not> js_includes
       (ascii ''POSTMAN_API_KEY='' @ [DQUOTE] @ ascii ''PMAK-1'' @ [DQUOTE]
        @ ascii '' postman api lint '' @ ascii ''/tmp/postman-lint-1700000000000.yaml''
        @ ascii '' > '' @ [DQUOTE] @ ascii ''/tmp/postman-output-1700000000001.txt''
        @ [DQUOTE] @ ascii '' 2>&1'')
       (ascii ''/opt/postman/bin/postman'')"
proof -
  have a: "enable customPathSettings"
    and b: "length (doc_text exampleDocument) \<le> maxFileSize customPathSettings"
    and c: "write_failure (exampleWorld TimedOut) = None"
    by (simp_all add: settings_examples exampleDocument_gates exampleWorld_def)
  have w: "lint_file (exampleWorld TimedOut) = ascii ''/tmp/postman-lint-1700000000000.yaml''"
    "output_file (exampleWorld TimedOut) = ascii ''/tmp/postman-output-1700000000001.txt''"
    by (simp_all add: exampleWorld_def)
  show ?thesis
    using tool_command_is_fixed [OF a b exampleDocument_gates(1) exampleDocument_gates(2) c,
        of "\<lambda>x. x" "exampleScorer (ascii ''PMAK-1'')"] custom_command
    by (simp add: settings_examples w exampleScorer_def)
qed

lemma run_publication:
  assumes "enable cfg" and "length (doc_text d) \<le> maxFileSize cfg"
    and "isSupportedFile (doc_uri d)" and "isOpenAPIContent (doc_text d)"
  shows "publications (validateTextDocument rnd w cfg (Some this) d)
           = [(doc_uri d,
               case write_failure w of
                 None \<Rightarrow> map toDiagnostic (sr_issues (scoreSpecFile rnd w this (lint_file w)))
               | Some e \<Rightarrow> [errorDiagnostic e])]"
  by (simp add: validate_runs [OF assms] publications_simps cleanup_quiet split: option.split)

lemma never_synthetic: "errorDiagnostic x \<notin> set (map toDiagnostic found)"
  by (auto simp: errorDiagnostic_def toDiagnostic_def)

text \<open>
  Claim C2 says that a run that fails at any stage publishes the one synthetic
  diagnostic. A run whose temporary file cannot be written does. But when the tool
  times out, or cannot be spawned, \<open>scoreSpecFile\<close> returns no issues and no error
  and the run publishes an empty set. As long as the file is written, what a run
  publishes is the diagnostics of the issues of \<open>scoreSpecFile\<close>, never the synthetic
  one, and the exit code of the tool makes no difference.
\<close>

theorem swallowed_failures_publish_nothing:
  assumes "enable cfg" and "length (doc_text d) \<le> maxFileSize cfg"
    and "isSupportedFile (doc_uri d)" and "isOpenAPIContent (doc_text d)"
    and "write_failure w = None"
  shows "publications (validateTextDocument rnd (w\<lparr>child := TimedOut\<rparr>) cfg (Some this) d)
           = [(doc_uri d, [])]
         \<and> publications (validateTextDocument rnd
               (w\<lparr>child := SpawnFailed (newError (ascii ''spawn sh ENOENT''))\<rparr>) cfg (Some this) d)
           = [(doc_uri d, [])]
         \<and> publications (validateTextDocument rnd w cfg (Some this) d)
           = [(doc_uri d, map toDiagnostic (sr_issues (scoreSpecFile rnd w this (lint_file w))))]
         \<and> errorDiagnostic x \<notin> set (map toDiagnostic found)
         \<and> publications (validateTextDocument rnd (w\<lparr>child := Closed code (Inr out)\<rparr>) cfg
               (Some this) d)
           = publications (validateTextDocument rnd (w\<lparr>child := Closed (Some 0) (Inr out)\<rparr>) cfg
               (Some this) d)
         \<and> publications (validateTextDocument rnd (w\<lparr>write_failure := Some e\<rparr>) cfg (Some this) d)
           = [(doc_uri d, [errorDiagnostic e])]
         \<and> errorDiagnostic e
           = \<lparr>diag_range = \<lparr>range_start = \<lparr>pos_line = Exact 0, pos_character = Exact 0\<rparr>,
                            range_end = \<lparr>pos_line = Exact 0, pos_character = Exact 1\<rparr>\<rparr>,
              diag_severity = 1,
              diag_message = ascii ''Postman linting failed: '' @ errorToString e,
              diag_source = ascii ''postman-governance'', diag_code = None\<rparr>"
proof (intro conjI)
  show "publications (validateTextDocument rnd (w\<lparr>child := TimedOut\<rparr>) cfg (Some this) d)
        = [(doc_uri d, [])]"
    using assms(5) scoreSpecFile_timeout [where rnd = rnd and w = w and this = this
        and specPath = "lint_file w"]
    by (simp add: run_publication [OF assms(1-4)])
  show "publications (validateTextDocument rnd
          (w\<lparr>child := SpawnFailed (newError (ascii ''spawn sh ENOENT''))\<rparr>) cfg (Some this) d)
        = [(doc_uri d, [])]"
    using assms(5) scoreSpecFile_spawnError [where rnd = rnd and w = w and this = this
        and specPath = "lint_file w"]
    by (simp add: run_publication [OF assms(1-4)])
  show "publications (validateTextDocument rnd w cfg (Some this) d)
        = [(doc_uri d, map toDiagnostic (sr_issues (scoreSpecFile rnd w this (lint_file w))))]"
    using assms(5) by (simp add: run_publication [OF assms(1-4)])
  show "errorDiagnostic x \<notin> set (map toDiagnostic found)"
    by (rule never_synthetic)
  show "publications (validateTextDocument rnd (w\<lparr>child := Closed code (Inr out)\<rparr>) cfg
          (Some this) d)
        = publications (validateTextDocument rnd (w\<lparr>child := Closed (Some 0) (Inr out)\<rparr>) cfg
          (Some this) d)"
    using assms(5)
      scoreSpecFile_closed [where rnd = rnd and w = w and code = code and out = out
        and this = this and specPath = "lint_file w"]
      scoreSpecFile_closed [where rnd = rnd and w = w and code = "Some 0" and out = out
        and this = this and specPath = "lint_file w"]
    by (simp add: run_publication [OF assms(1-4)])
  show "publications (validateTextDocument rnd (w\<lparr>write_failure := Some e\<rparr>) cfg (Some this) d)
        = [(doc_uri d, [errorDiagnostic e])]"
    by (simp add: run_publication [OF assms(1-4)])
  show "errorDiagnostic e
        = \<lparr>diag_range = \<lparr>range_start = \<lparr>pos_line = Exact 0, pos_character = Exact 0\<rparr>,
                         range_end = \<lparr>pos_line = Exact 0, pos_character = Exact 1\<rparr>\<rparr>,
           diag_severity = 1,
           diag_message = ascii ''Postman linting failed: '' @ errorToString e,
           diag_source = ascii ''postman-governance'', diag_code = None\<rparr>"
    by (simp add: errorDiagnostic_def)
qed

lemma fullDisk_message:
  "diag_message (errorDiagnostic (newError (ascii ''ENOSPC: no space left on device, write'')))
   = ascii ''Postman linting failed: Error: ENOSPC: no space left on device, write''"
  by (simp add: errorDiagnostic_def newError_def errorToString_def ascii_def)

theorem swallowed_failures_publish_nothing_witness:
  "enable DEFAULT_SETTINGS
   \<and> isSupportedFile (doc_uri exampleDocument) \<and> isOpenAPIContent (doc_text exampleDocument)
   \<and> publications (validateTextDocument (\<lambda>x. x) (exampleWorld TimedOut) DEFAULT_SETTINGS
        (Some (exampleScorer (ascii ''PMAK-1''))) exampleDocument)
     = [(doc_uri exampleDocument, [])]
   \<and> publications (validateTextDocument (\<lambda>x. x) fullDiskWorld DEFAULT_SETTINGS
        (Some (exampleScorer (ascii ''PMAK-1''))) exampleDocument)
     = [(doc_uri exampleDocument,
         [errorDiagnostic (newError (ascii ''ENOSPC: no space left on device, write''))])]
   \<and> diag_message (errorDiagnostic (newError (ascii ''ENOSPC: no space left on device, write'')))
     = ascii ''Postman linting failed: Error: ENOSPC: no space left on device, write''"
proof -
  have b: "length (doc_text exampleDocument) \<le> maxFileSize DEFAULT_SETTINGS"
    by (simp add: settings_examples exampleDocument_gates)
  have c: "write_failure (exampleWorld TimedOut) = None"
    by (simp add: exampleWorld_def)
  have w: "(exampleWorld TimedOut)\<lparr>child := TimedOut\<rparr> = exampleWorld TimedOut"
    "(exampleWorld TimedOut)\<lparr>write_failure :=
        Some (newError (ascii ''ENOSPC: no space left on device, write''))\<rparr> = fullDiskWorld"
    by (simp_all add: exampleWorld_def fullDiskWorld_def)
  note run = swallowed_failures_publish_nothing [OF settings_examples(1) b
      exampleDocument_gates(1) exampleDocument_gates(2) c, where rnd = "\<lambda>x. x"
      and this = "exampleScorer (ascii ''PMAK-1'')"
      and e = "newError (ascii ''ENOSPC: no space left on device, write'')"]
  have t: "publications (validateTextDocument (\<lambda>x. x) (exampleWorld TimedOut) DEFAULT_SETTINGS
        (Some (exampleScorer (ascii ''PMAK-1''))) exampleDocument)
     = [(doc_uri exampleDocument, [])]"
    using run by (simp only: w)
  have f: "publications (validateTextDocument (\<lambda>x. x) fullDiskWorld DEFAULT_SETTINGS
        (Some (exampleScorer (ascii ''PMAK-1''))) exampleDocument)
     = [(doc_uri exampleDocument,
         [errorDiagnostic (newError (ascii ''ENOSPC: no space left on device, write''))])]"
    using run by (simp only: w)
  show ?thesis
    using settings_examples(1) exampleDocument_gates(1) exampleDocument_gates(2) t f
      fullDisk_message
    by blast
qed

subsection \<open>Events and timers\<close>

lemma step_keeps_timers:
  "\<not> isTimerFires e \<Longrightarrow> \<exists>new. timers (step s e) = timers s @ new"
  by (cases e) simp_all

lemma run_keeps_timers:
  "list_all (\<lambda>e. \<not> isTimerFires e) es \<Longrightarrow> \<exists>new. timers (run s es) = timers s @ new"
proof (induction es arbitrary: s)
  case Nil
  show ?case by (simp add: run_def)
next
  case (Cons e es)
  from Cons.prems have e: "\<not> isTimerFires e" and es: "list_all (\<lambda>e. \<not> isTimerFires e) es"
    by simp_all
  obtain new1 where n1: "timers (step s e) = timers s @ new1"
    using step_keeps_timers [OF e] by blast
  obtain new2 where n2: "timers (run (step s e) es) = timers (step s e) @ new2"
    using Cons.IH [OF es] by blast
  show ?case
    by (rule exI [of _ "new1 @ new2"]) (simp add: run_def n1 n2 [unfolded run_def])
qed

lemma run_Cons: "run s (e # es) = run (step s e) es"
  by (simp add: run_def)

lemma run_Nil: "run s [] = s"
  by (simp add: run_def)

lemma changes_arm:
  assumes "lintOnChange (settings s)"
  shows "timers (run s (map DidChangeContent ds))
           = timers s @ map (\<lambda>d. \<lparr>due = clock s + lintOnChangeDelay (settings s),
                                    timer_doc = doc_uri d\<rparr>) ds
         \<and> settings (run s (map DidChangeContent ds)) = settings s
         \<and> clock (run s (map DidChangeContent ds)) = clock s
         \<and> validated (run s (map DidChangeContent ds)) = validated s"
  using assms
proof (induction ds arbitrary: s)
  case Nil
  show ?case by (simp add: run_def)
next
  case (Cons d ds)
  let ?s = "step s (DidChangeContent d)"
  have s: "lintOnChange (settings ?s)" "settings ?s = settings s" "clock ?s = clock s"
    "validated ?s = validated s"
    "timers ?s = timers s @ [\<lparr>due = clock s + lintOnChangeDelay (settings s),
                              timer_doc = doc_uri d\<rparr>]"
    using Cons.prems by simp_all
  show ?case
    using Cons.IH [OF s(1)] by (simp add: run_Cons s del: step.simps)
qed

lemma fire_all:
  assumes "timers s = pre @ ts" and "list_all (\<lambda>t. due t \<le> clock s) ts"
  shows "timers (run s (replicate (length ts) (TimerFires (length pre)))) = pre
         \<and> validated (run s (replicate (length ts) (TimerFires (length pre))))
           = validated s @ map timer_doc ts"
  using assms
proof (induction ts arbitrary: s)
  case Nil
  then show ?case by (simp add: run_def)
next
  case (Cons t ts)
  let ?s = "step s (TimerFires (length pre))"
  have d: "due t \<le> clock s" and r: "list_all (\<lambda>t. due t \<le> clock s) ts"
    using Cons.prems(2) by simp_all
  have s: "timers ?s = pre @ ts" "validated ?s = validated s @ [timer_doc t]"
    "clock ?s = clock s"
    using Cons.prems(1) d by (simp_all add: nth_append)
  have r': "list_all (\<lambda>t. due t \<le> clock ?s) ts"
    using r s(3) by simp
  show ?case
    using Cons.IH [OF s(1) r'] by (simp add: run_Cons s(2) del: step.simps)
qed

lemma run_append: "run s (es @ fs) = run (run s es) fs"
  by (simp add: run_def)

text \<open>
  Claim C6. With \<open>lintOnChange\<close> set, a content change appends one timer, due after
  \<open>lintOnChangeDelay\<close>, to the pending ones; no sequence of events without a firing
  removes or changes a pending timer; so the changes of a list of documents leave as
  many new timers as there are changes, and once the delay has passed and they have
  fired, \<open>validateTextDocument\<close> has been called once for each change.
\<close>

theorem debounce_never_cancels:
  assumes "lintOnChange (settings s)" and "lintOnChangeDelay (settings s) \<le> t"
  shows "timers (step s (DidChangeContent d))
           = timers s @ [\<lparr>due = clock s + lintOnChangeDelay (settings s), timer_doc = doc_uri d\<rparr>]
         \<and> (list_all (\<lambda>e. \<not> isTimerFires e) es
              \<longrightarrow> (\<exists>new. timers (run s es) = timers s @ new))
         \<and> timers (run s (map DidChangeContent ds))
           = timers s @ map (\<lambda>d. \<lparr>due = clock s + lintOnChangeDelay (settings s),
                                    timer_doc = doc_uri d\<rparr>) ds
         \<and> length (timers (run s (map DidChangeContent ds))) = length (timers s) + length ds
         \<and> validated (run s (map DidChangeContent ds @ [TimePasses t]
                @ replicate (length ds) (TimerFires (length (timers s)))))
           = validated s @ map doc_uri ds"
proof -
  let ?armed = "map (\<lambda>d. \<lparr>due = clock s + lintOnChangeDelay (settings s),
                            timer_doc = doc_uri d\<rparr>) ds"
  let ?s1 = "run s (map DidChangeContent ds)"
  let ?s2 = "step ?s1 (TimePasses t)"
  have one: "timers (step s (DidChangeContent d))
           = timers s @ [\<lparr>due = clock s + lintOnChangeDelay (settings s), timer_doc = doc_uri d\<rparr>]"
    using assms(1) by simp
  have arm: "timers ?s1 = timers s @ ?armed" "clock ?s1 = clock s" "validated ?s1 = validated s"
    using changes_arm [OF assms(1), of ds] by simp_all
  have s2: "timers ?s2 = timers s @ ?armed" "clock ?s2 = clock s + t" "validated ?s2 = validated s"
    using arm by simp_all
  have due: "list_all (\<lambda>x. due x \<le> clock ?s2) ?armed"
    using assms(2) by (simp add: arm(2) list_all_iff)
  have fired: "validated (run ?s2 (replicate (length ?armed) (TimerFires (length (timers s)))))
               = validated ?s2 @ map timer_doc ?armed"
    using fire_all [OF s2(1) due] by simp
  have last: "validated (run s (map DidChangeContent ds @ [TimePasses t]
                @ replicate (length ds) (TimerFires (length (timers s)))))
           = validated s @ map doc_uri ds"
    using fired by (simp add: run_append run_Cons s2(3) comp_def del: step.simps)
  show ?thesis
    using one run_keeps_timers [of es s] arm(1) last by simp
qed

lemma realtimeState_fields:
  "lintOnChange (settings realtimeState)" "lintOnChangeDelay (settings realtimeState) = 500"
  "timers realtimeState = []" "validated realtimeState = []"
  by (simp_all add: realtimeState_def DEFAULT_SETTINGS_def)

theorem debounce_never_cancels_witness:
  "lintOnChange (settings realtimeState)
   \<and> lintOnChangeDelay (settings realtimeState) \<le> 500
   \<and> length (timers (run realtimeState
        [DidChangeContent exampleDocument, DidChangeContent exampleDocument,
         DidChangeContent exampleDocument])) = 3
   \<and> validated (run realtimeState
        [DidChangeContent exampleDocument, DidChangeContent exampleDocument,
         DidChangeContent exampleDocument, TimePasses 500,
         TimerFires 0, TimerFires 0, TimerFires 0])
     = [doc_uri exampleDocument, doc_uri exampleDocument, doc_uri exampleDocument]"
proof -
  have b: "lintOnChangeDelay (settings realtimeState) \<le> 500"
    by (simp add: realtimeState_fields)
  show ?thesis
    using debounce_never_cancels [OF realtimeState_fields(1) b,
        where ds = "[exampleDocument, exampleDocument, exampleDocument]"]
    by (simp add: realtimeState_fields del: step.simps)
qed

end
